theory Spec2Isabelle
  imports Main
begin

section \<open>JSON values and the settings dictionary\<close>

text \<open>
  The settings record of the bot is a Python \<^verbatim>\<open>dict\<close> read from and written to
  \<^verbatim>\<open>config.json\<close>. Its values are the JSON scalars the program stores: \<^verbatim>\<open>None\<close>,
  booleans, integers and strings. (JSON arrays, nested objects and non-integer numbers are
  never written by the program and are left out of the value type.)
\<close>

datatype jval = JNull | JBool bool | JInt int | JStr string

type_synonym config = "string \<rightharpoonup> jval"

datatype py_error = KeyError | TypeError | ValueError

text \<open>Python truthiness of a value, as used by \<^verbatim>\<open>if config[...]:\<close>.\<close>

fun truthy :: "jval \<Rightarrow> bool" where
  "truthy JNull = False"
| "truthy (JBool b) = b"
| "truthy (JInt n) = (n \<noteq> 0)"
| "truthy (JStr s) = (s \<noteq> [])"

text \<open>\<^verbatim>\<open>config.get(key)\<close>: a missing key reads as \<^verbatim>\<open>None\<close>.\<close>

definition py_get :: "config \<Rightarrow> string \<Rightarrow> jval" where
  "py_get c k = (case c k of None \<Rightarrow> JNull | Some v \<Rightarrow> v)"

text \<open>\<^verbatim>\<open>config[key]\<close>: a missing key raises \<^verbatim>\<open>KeyError\<close>.\<close>

definition py_item :: "config \<Rightarrow> string \<Rightarrow> py_error + jval" where
  "py_item c k = (case c k of None \<Rightarrow> Inl KeyError | Some v \<Rightarrow> Inr v)"

text \<open>
  \<^verbatim>\<open>value >= 1\<close> on a stored value: integers compare, \<^verbatim>\<open>bool\<close> is a subclass of
  \<^verbatim>\<open>int\<close>, and a string or \<^verbatim>\<open>None\<close> raises \<^verbatim>\<open>TypeError\<close>.
\<close>

fun py_ge_1 :: "jval \<Rightarrow> py_error + bool" where
  "py_ge_1 (JInt n) = Inr (1 \<le> n)"
| "py_ge_1 (JBool b) = Inr b"
| "py_ge_1 JNull = Inl TypeError"
| "py_ge_1 (JStr s) = Inl TypeError"

text \<open>\<^verbatim>\<open>value += 1\<close> on a stored value.\<close>

fun py_add_1 :: "jval \<Rightarrow> py_error + jval" where
  "py_add_1 (JInt n) = Inr (JInt (n + 1))"
| "py_add_1 (JBool b) = Inr (JInt ((if b then 1 else 0) + 1))"
| "py_add_1 JNull = Inl TypeError"
| "py_add_1 (JStr s) = Inl TypeError"

section \<open>The settings store of bot.py\<close>

text \<open>\<^verbatim>\<open>DEFAULT_CONFIG\<close> of bot.py, in the order of the source.\<close>

definition DEFAULT_ITEMS :: "(string \<times> jval) list" where
  "DEFAULT_ITEMS =
    [(''auto_mode'', JBool False),
     (''auto_mode_type'', JStr ''smart''),
     (''watering_duration'', JInt 3),
     (''schedule_morning_time'', JStr ''09:00''),
     (''schedule_evening_time'', JStr ''19:00''),
     (''notifications'', JBool True),
     (''moisture_threshold'', JInt 430),
     (''report_interval'', JInt 30),
     (''last_watering'', JNull),
     (''watering_count_today'', JInt 0),
     (''last_watering_date'', JNull),
     (''dont_ask_again_today'', JBool False)]"

definition DEFAULT_CONFIG :: config where
  "DEFAULT_CONFIG = map_of DEFAULT_ITEMS"

text \<open>
  The state of \<^verbatim>\<open>config.json\<close> as \<^verbatim>\<open>load_config\<close> sees it: the file does not exist;
  it exists but opening or decoding it raises (this also covers a file whose top-level JSON
  value is not an object, where the merge loop raises inside the \<^verbatim>\<open>try\<close>); or it
  holds a JSON object.
\<close>

datatype file_state = Absent | Unreadable | Stored config

text \<open>
  The merge loop of \<^verbatim>\<open>load_config\<close>:
  \<^verbatim>\<open>for key, value in DEFAULT_CONFIG.items(): if key not in config: config[key] = value\<close>.
\<close>

definition fill_defaults :: "config \<Rightarrow> config" where
  "fill_defaults c =
     fold (\<lambda>(k, v) cfg. if cfg k = None then cfg(k \<mapsto> v) else cfg) DEFAULT_ITEMS c"

definition load_config :: "file_state \<Rightarrow> config" where
  "load_config f =
     (case f of
        Absent \<Rightarrow> DEFAULT_CONFIG
      | Unreadable \<Rightarrow> DEFAULT_CONFIG
      | Stored c \<Rightarrow> fill_defaults c)"

text \<open>
  The part of the process state the settings logic touches: the configuration file, whether
  writing it succeeds (\<^verbatim>\<open>save_config\<close> catches the exception and returns \<^verbatim>\<open>False\<close>),
  and the flag \<^verbatim>\<open>nodemcu.connected\<close> of the module-level controller object.
\<close>

record world =
  config_file :: file_state
  writable :: bool
  connected :: bool

definition save_config :: "world \<Rightarrow> config \<Rightarrow> world \<times> bool" where
  "save_config w c = (if writable w then (w\<lparr>config_file := Stored c\<rparr>, True) else (w, False))"

definition update_config :: "world \<Rightarrow> config \<Rightarrow> config \<times> world" where
  "update_config w new_settings =
     (let config = load_config (config_file w) ++ new_settings
      in (config, fst (save_config w config)))"

section \<open>The settings store of config.py\<close>

definition config_DEFAULT_ITEMS :: "(string \<times> jval) list" where
  "config_DEFAULT_ITEMS =
    [(''auto_mode'', JBool False),
     (''watering_duration'', JInt 3),
     (''notifications'', JBool True),
     (''moisture_threshold'', JInt 400),
     (''report_interval'', JInt 30)]"

definition config_DEFAULT_CONFIG :: config where
  "config_DEFAULT_CONFIG = map_of config_DEFAULT_ITEMS"

text \<open>\<^verbatim>\<open>load_config\<close> of config.py returns \<^verbatim>\<open>json.load(f)\<close> as it is.\<close>

definition config_load_config :: "file_state \<Rightarrow> config" where
  "config_load_config f =
     (case f of
        Absent \<Rightarrow> config_DEFAULT_CONFIG
      | Unreadable \<Rightarrow> config_DEFAULT_CONFIG
      | Stored c \<Rightarrow> c)"

section \<open>Moisture classification\<close>

text \<open>
  \<^verbatim>\<open>get_moisture_status\<close> returns a pair of fixed texts, a label and an advice. The texts
  are Russian; each constructor below stands for one literal of the source, in source order.
\<close>

datatype moisture_label = VERY_DRY | DRY | NORMAL | IDEAL | MOIST | OVERWATERED | TOO_WET_LABEL

datatype moisture_advice =
    URGENT_WATERING | WATERING_RECOMMENDED | MOISTURE_ADEQUATE | OPTIMAL_MOISTURE
  | NO_WATERING_NEEDED | DANGEROUS_FOR_PLANT | ROOT_ROT_RISK

definition get_moisture_status :: "int \<Rightarrow> moisture_label \<times> moisture_advice" where
  "get_moisture_status moisture_raw =
     (if moisture_raw \<ge> 530 then (VERY_DRY, URGENT_WATERING)
      else if moisture_raw \<ge> 430 then (DRY, WATERING_RECOMMENDED)
      else if moisture_raw \<ge> 350 then (NORMAL, MOISTURE_ADEQUATE)
      else if moisture_raw \<ge> 320 then (IDEAL, OPTIMAL_MOISTURE)
      else if moisture_raw \<ge> 310 then (MOIST, NO_WATERING_NEEDED)
      else if moisture_raw \<ge> 305 then (OVERWATERED, DANGEROUS_FOR_PLANT)
      else (TOO_WET_LABEL, ROOT_ROT_RISK))"

section \<open>Dates, timestamps and their ISO strings\<close>

text \<open>
  The program stores \<^verbatim>\<open>str(date)\<close> and \<^verbatim>\<open>datetime.isoformat()\<close> strings in the
  settings and reads them back with \<^verbatim>\<open>datetime.fromisoformat\<close>. These are functions
  of the Python standard library; they are modelled here on naive datetimes of the
  proleptic Gregorian calendar, as \<^verbatim>\<open>datetime.now()\<close> returns them.
\<close>

type_synonym date = "nat \<times> nat \<times> nat"

record datetime =
  year :: nat
  month :: nat
  day :: nat
  hour :: nat
  minute :: nat
  second :: nat
  microsecond :: nat

definition date_of :: "datetime \<Rightarrow> date" where
  "date_of dt = (year dt, month dt, day dt)"

definition is_leap :: "nat \<Rightarrow> bool" where
  "is_leap y = (y mod 4 = 0 \<and> (y mod 100 \<noteq> 0 \<or> y mod 400 = 0))"

definition days_in_month :: "nat \<Rightarrow> nat \<Rightarrow> nat" where
  "days_in_month y m =
     (if m = 2 then (if is_leap y then 29 else 28)
      else if m = 4 \<or> m = 6 \<or> m = 9 \<or> m = 11 then 30 else 31)"

definition valid_date :: "date \<Rightarrow> bool" where
  "valid_date d =
     (case d of (y, m, dd) \<Rightarrow>
        1 \<le> y \<and> y \<le> 9999 \<and> 1 \<le> m \<and> m \<le> 12 \<and> 1 \<le> dd \<and> dd \<le> days_in_month y m)"

definition valid_datetime :: "datetime \<Rightarrow> bool" where
  "valid_datetime dt =
     (valid_date (date_of dt) \<and> hour dt < 24 \<and> minute dt < 60 \<and> second dt < 60
      \<and> microsecond dt < 1000000)"

text \<open>
  The proleptic Gregorian ordinal of a date (\<^verbatim>\<open>date.toordinal()\<close>) and the instant of a
  datetime in microseconds. The difference of two datetimes is a \<^verbatim>\<open>timedelta\<close> whose
  exact value in microseconds is the difference of the two instants.
\<close>

definition days_before_year :: "nat \<Rightarrow> nat" where
  "days_before_year y = (let p = y - 1 in p * 365 + p div 4 - p div 100 + p div 400)"

definition days_before_month :: "nat \<Rightarrow> nat \<Rightarrow> nat" where
  "days_before_month y m =
     [0, 31, 59, 90, 120, 151, 181, 212, 243, 273, 304, 334] ! (m - 1)
       + (if m > 2 \<and> is_leap y then 1 else 0)"

definition ymd2ord :: "date \<Rightarrow> nat" where
  "ymd2ord d = (case d of (y, m, dd) \<Rightarrow> days_before_year y + days_before_month y m + dd)"

definition to_micros :: "datetime \<Rightarrow> int" where
  "to_micros dt =
     ((int (ymd2ord (date_of dt)) * 86400 + int (hour dt) * 3600 + int (minute dt) * 60
        + int (second dt)) * 1000000 + int (microsecond dt))"

text \<open>Decimal digits, and \<^verbatim>\<open>%0wd\<close> formatting of a number to a fixed width.\<close>

definition decimal_digits :: string where
  "decimal_digits = ''0123456789''"

definition digit_char :: "nat \<Rightarrow> char" where
  "digit_char d = decimal_digits ! d"

definition digit_val :: "char \<Rightarrow> nat option" where
  "digit_val c = map_of (zip decimal_digits [0, 1, 2, 3, 4, 5, 6, 7, 8, 9]) c"

fun zero_pad :: "nat \<Rightarrow> nat \<Rightarrow> string" where
  "zero_pad 0 n = []"
| "zero_pad (Suc w) n = zero_pad w (n div 10) @ [digit_char (n mod 10)]"

fun digits_value :: "nat \<Rightarrow> string \<Rightarrow> nat option" where
  "digits_value acc [] = Some acc"
| "digits_value acc (c # cs) =
     (case digit_val c of None \<Rightarrow> None | Some d \<Rightarrow> digits_value (10 * acc + d) cs)"

text \<open>\<^verbatim>\<open>str(date)\<close> is \<^verbatim>\<open>YYYY-MM-DD\<close>.\<close>

definition str_date :: "date \<Rightarrow> string" where
  "str_date d = (case d of (y, m, dd) \<Rightarrow> zero_pad 4 y @ ''-'' @ zero_pad 2 m @ ''-'' @ zero_pad 2 dd)"

text \<open>
  \<^verbatim>\<open>datetime.isoformat()\<close> is \<^verbatim>\<open>YYYY-MM-DDTHH:MM:SS\<close>, followed by
  \<^verbatim>\<open>.ffffff\<close> when the microsecond field is not zero.
\<close>

definition isoformat :: "datetime \<Rightarrow> string" where
  "isoformat dt =
     str_date (date_of dt) @ ''T'' @ zero_pad 2 (hour dt) @ '':'' @ zero_pad 2 (minute dt)
       @ '':'' @ zero_pad 2 (second dt)
       @ (if microsecond dt = 0 then [] else ''.'' @ zero_pad 6 (microsecond dt))"

text \<open>
  \<^verbatim>\<open>datetime.fromisoformat\<close>. The parser below accepts the three layouts the program
  can have written, \<^verbatim>\<open>YYYY-MM-DD\<close>, \<^verbatim>\<open>YYYY-MM-DD?HH:MM:SS\<close> and
  \<^verbatim>\<open>YYYY-MM-DD?HH:MM:SS.ffffff\<close> (any separator character at \<open>?\<close>), checks the
  field ranges as the \<^verbatim>\<open>datetime\<close> constructor does, and rejects every other string
  with \<^verbatim>\<open>ValueError\<close>. CPython accepts some further layouts (hours only, three-digit
  fractions, UTC offsets); the program never writes them, and they are treated here as
  malformed. A value that is not a string raises \<^verbatim>\<open>TypeError\<close>.
\<close>

definition parse_date :: "string \<Rightarrow> date option" where
  "parse_date s =
     (if length s = 10 \<and> s ! 4 = CHR ''-'' \<and> s ! 7 = CHR ''-'' then
        (case (digits_value 0 (take 4 s), digits_value 0 (take 2 (drop 5 s)),
               digits_value 0 (drop 8 s)) of
           (Some y, Some m, Some dd) \<Rightarrow> if valid_date (y, m, dd) then Some (y, m, dd) else None
         | _ \<Rightarrow> None)
      else None)"

definition parse_time :: "string \<Rightarrow> (nat \<times> nat \<times> nat \<times> nat) option" where
  "parse_time s =
     (if (length s = 8 \<or> length s = 15 \<and> s ! 8 = CHR ''.'')
         \<and> s ! 2 = CHR '':'' \<and> s ! 5 = CHR '':'' then
        (case (digits_value 0 (take 2 s), digits_value 0 (take 2 (drop 3 s)),
               digits_value 0 (take 2 (drop 6 s)), digits_value 0 (drop 9 s)) of
           (Some h, Some mi, Some sec, Some us) \<Rightarrow>
              if h < 24 \<and> mi < 60 \<and> sec < 60 then Some (h, mi, sec, us) else None
         | _ \<Rightarrow> None)
      else None)"

definition fromisoformat_str :: "string \<Rightarrow> datetime option" where
  "fromisoformat_str s =
     (case parse_date (take 10 s) of
        None \<Rightarrow> None
      | Some (y, m, dd) \<Rightarrow>
          if length s \<le> 10 then
            Some \<lparr>year = y, month = m, day = dd, hour = 0, minute = 0, second = 0,
                  microsecond = 0\<rparr>
          else
            (case parse_time (drop 11 s) of
               None \<Rightarrow> None
             | Some (h, mi, sec, us) \<Rightarrow>
                 Some \<lparr>year = y, month = m, day = dd, hour = h, minute = mi, second = sec,
                       microsecond = us\<rparr>))"

definition fromisoformat :: "jval \<Rightarrow> py_error + datetime" where
  "fromisoformat v =
     (case v of
        JStr s \<Rightarrow> (case fromisoformat_str s of None \<Rightarrow> Inl ValueError | Some dt \<Rightarrow> Inr dt)
      | _ \<Rightarrow> Inl TypeError)"

section \<open>The device controller\<close>

text \<open>
  What the device answers to one HTTP request: the request raises (timeout, refused
  connection), or a response arrives with a status code and a body that decodes to a JSON
  object (\<open>Some\<close>) or does not (\<open>None\<close>, where \<^verbatim>\<open>response.json()\<close> or the
  \<^verbatim>\<open>.get\<close> on its result raises).
\<close>

datatype response = NoResponse | HttpResponse nat "(string \<rightharpoonup> jval) option"

text \<open>
  \<^verbatim>\<open>NodeMCUHTTPController.get_moisture\<close>: returns the pair (moisture, status) and
  clears \<^verbatim>\<open>self.connected\<close> when the request or the decoding raises.
\<close>

definition get_moisture :: "world \<Rightarrow> response \<Rightarrow> (jval \<times> jval) \<times> world" where
  "get_moisture w resp =
     (if \<not> connected w then ((JNull, JNull), w)
      else
        (case resp of
           NoResponse \<Rightarrow> ((JNull, JNull), w\<lparr>connected := False\<rparr>)
         | HttpResponse code body \<Rightarrow>
             if code = 200 then
               (case body of
                  None \<Rightarrow> ((JNull, JNull), w\<lparr>connected := False\<rparr>)
                | Some data \<Rightarrow> ((py_get data ''moisture'', py_get data ''status''), w))
             else ((JNull, JNull), w)))"

text \<open>
  The texts \<^verbatim>\<open>NodeMCUHTTPController.water_plant\<close> and \<^verbatim>\<open>water_plant\<close> of bot.py
  return next to the success flag; each constructor stands for one literal of the source.
  \<open>DEVICE_ERROR\<close> carries \<^verbatim>\<open>data.get('error')\<close>, \<open>None\<close> for the default text.
\<close>

datatype water_message =
    NO_LINK_TO_WATERING_SYSTEM | NO_CONNECTION | WATERING_DONE
  | DEVICE_ERROR "jval option" | LINK_ERROR

definition nodemcu_water_plant :: "world \<Rightarrow> response \<Rightarrow> bool \<times> water_message" where
  "nodemcu_water_plant w resp =
     (if \<not> connected w then (False, NO_CONNECTION)
      else
        (case resp of
           NoResponse \<Rightarrow> (False, LINK_ERROR)
         | HttpResponse code body \<Rightarrow>
             if code = 200 then (True, WATERING_DONE)
             else
               (case body of
                  None \<Rightarrow> (False, LINK_ERROR)
                | Some data \<Rightarrow> (False, DEVICE_ERROR (data ''error'')))))"

section \<open>Sensor data\<close>

text \<open>
  The percentage \<^verbatim>\<open>max(0, min(100, int((750 - raw) / 445 * 100)))\<close> of lines 134-137 is
  computed in floating point. Within the clamp range the float result is closer to the exact
  quotient than the quotient is to the next integer, so the truncation is that of the exact
  quotient; outside it the result is clamped. When \<open>750 - raw\<close> is so large that the product
  overflows to infinity, \<^verbatim>\<open>int\<close> raises \<^verbatim>\<open>OverflowError\<close>: this happens exactly
  above the bound below, 445 times the midpoint of the last two doubles whose hundredfold is
  finite.
\<close>

definition percent_overflows :: "int \<Rightarrow> bool" where
  "percent_overflows x = (\<bar>x\<bar> > 445 * 11529215046068469 * 2 ^ 964)"

definition moisture_percent_of :: "int \<Rightarrow> int" where
  "moisture_percent_of raw_value =
     (let x = 750 - raw_value;
          truncated = (if x < 0 then - ((100 * (- x)) div 445) else (100 * x) div 445)
      in max 0 (min 100 truncated))"

text \<open>
  \<^verbatim>\<open>get_sensor_data\<close> of bot.py. The dictionary it returns also holds an emulated random
  temperature, which no check reads and which is left out. A boolean moisture value passes
  the arithmetic as the integer it is in Python; a string, or an overflow of the percentage,
  raises inside the \<^verbatim>\<open>try\<close> and gives \<^verbatim>\<open>None\<close>.
\<close>

record sensor_data =
  moisture_percent :: int
  moisture_raw :: int
  status :: jval

definition get_sensor_data :: "world \<Rightarrow> response \<Rightarrow> sensor_data option \<times> world" where
  "get_sensor_data w resp =
     (if \<not> connected w then (None, w)
      else
        (case get_moisture w resp of
           ((raw_value, st), w') \<Rightarrow>
             (case raw_value of
                JNull \<Rightarrow> (None, w')
              | JInt r \<Rightarrow>
                  if percent_overflows (750 - r) then (None, w')
                  else (Some \<lparr>moisture_percent = moisture_percent_of r, moisture_raw = r,
                               status = st\<rparr>, w')
              | JBool b \<Rightarrow>
                  (Some \<lparr>moisture_percent = moisture_percent_of (if b then 1 else 0),
                          moisture_raw = (if b then 1 else 0), status = st\<rparr>, w')
              | JStr s \<Rightarrow> (None, w'))))"

section \<open>The watering checks\<close>

datatype level = OK | INFO | WARNING | DANGER

text \<open>
  The texts of \<^verbatim>\<open>check_watering_restrictions\<close>; each constructor stands for one literal
  or f-string of the source, with the values the f-string interpolates. A message is the list
  of its parts, which the source joins with a blank line.
\<close>

datatype notice =
    NO_LINK
  | NO_MOISTURE_DATA
  | CAN_WATER
  | TOO_FREQUENT
  | ALREADY_TODAY jval int
  | INFO_TODAY int
  | TOO_WET int

record verdict =
  allowed :: bool
  message :: "notice list"
  severity :: level

text \<open>Lines 181-186: the flag "do not ask again today" is dropped on a new day.\<close>

definition reset_dont_ask :: "world \<Rightarrow> config \<Rightarrow> date \<Rightarrow> config \<times> world" where
  "reset_dont_ask w config today =
     (if py_get config ''dont_ask_again_date'' \<noteq> JStr (str_date today) then
        (let config' = config(''dont_ask_again_today'' \<mapsto> JBool False,
                               ''dont_ask_again_date'' \<mapsto> JStr (str_date today))
         in (config', fst (save_config w config')))
      else (config, w))"

text \<open>
  Lines 192-209: the frequency check, giving \<^verbatim>\<open>warning_message\<close> and
  \<^verbatim>\<open>warning_level\<close>. \<^verbatim>\<open>hours_since_last\<close> is a float: the seconds of the
  \<^verbatim>\<open>timedelta\<close> divided by 3600. Both divisions round monotonically and 6 and 12 hours
  are exact, so the two comparisons decide as the exact microsecond counts do.
  \<^verbatim>\<open>int(hours_since_last)\<close> is the number of whole hours (for intervals up to a
  century, where the rounding error is smaller than one microsecond's share of an hour).
\<close>

definition frequency_check :: "config \<Rightarrow> datetime \<Rightarrow> py_error + (notice list option \<times> level)" where
  "frequency_check config now =
     (case py_item config ''last_watering_date'' of
        Inl e \<Rightarrow> Inl e
      | Inr lwd \<Rightarrow>
          if \<not> truthy lwd then Inr (None, OK)
          else
            (case fromisoformat lwd of
               Inl e \<Rightarrow> Inl e
             | Inr last_dt \<Rightarrow>
                 if date_of last_dt \<noteq> date_of now then Inr (None, OK)
                 else
                   (case py_item config ''watering_count_today'' of
                      Inl e \<Rightarrow> Inl e
                    | Inr cnt \<Rightarrow>
                        (case py_ge_1 cnt of
                           Inl e \<Rightarrow> Inl e
                         | Inr False \<Rightarrow> Inr (None, OK)
                         | Inr True \<Rightarrow>
                             (case py_item config ''last_watering'' of
                                Inl e \<Rightarrow> Inl e
                              | Inr lw \<Rightarrow>
                                  (case fromisoformat lw of
                                     Inl e \<Rightarrow> Inl e
                                   | Inr last_time \<Rightarrow>
                                       (let us = to_micros now - to_micros last_time in
                                        if us < 6 * 3600000000 then
                                          Inr (Some [TOO_FREQUENT], DANGER)
                                        else if us < 12 * 3600000000 then
                                          Inr (Some [ALREADY_TODAY cnt (us div 3600000000)],
                                               WARNING)
                                        else
                                          Inr (Some [INFO_TODAY (us div 3600000000)],
                                               INFO))))))))"

text \<open>Lines 216-226: the soil moisture check and the verdict.\<close>

definition moisture_check :: "notice list option \<Rightarrow> level \<Rightarrow> sensor_data \<Rightarrow> verdict" where
  "moisture_check warning_message warning_level sd =
     (let (warning_message, warning_level) =
            (if moisture_raw sd < 310 then
               (case warning_message of
                  Some m \<Rightarrow> (Some (m @ [TOO_WET (moisture_raw sd)]), DANGER)
                | None \<Rightarrow> (Some [TOO_WET (moisture_raw sd)], DANGER))
             else (warning_message, warning_level))
      in (case warning_message of
            Some m \<Rightarrow> \<lparr>allowed = True, message = m, severity = warning_level\<rparr>
          | None \<Rightarrow> \<lparr>allowed = True, message = [CAN_WATER], severity = OK\<rparr>))"

text \<open>
  \<^verbatim>\<open>check_watering_restrictions\<close>. The function reads the clock twice, for
  \<^verbatim>\<open>today\<close> and for \<^verbatim>\<open>hours_since_last\<close>; the two readings are taken as one
  instant \<open>now\<close>. The result is the returned triple or the exception that escapes, and the
  state the call leaves behind.
\<close>

definition check_watering_restrictions ::
  "world \<Rightarrow> response \<Rightarrow> datetime \<Rightarrow> (py_error + verdict) \<times> world" where
  "check_watering_restrictions w resp now =
     (let config = load_config (config_file w) in
      if \<not> connected w then
        (Inr \<lparr>allowed = False, message = [NO_LINK], severity = DANGER\<rparr>, w)
      else
        (case reset_dont_ask w config (date_of now) of
           (config, w1) \<Rightarrow>
             if truthy (py_get config ''dont_ask_again_today'') then
               (Inr \<lparr>allowed = True, message = [CAN_WATER], severity = OK\<rparr>, w1)
             else
               (case frequency_check config now of
                  Inl e \<Rightarrow> (Inl e, w1)
                | Inr (warning_message, warning_level) \<Rightarrow>
                    (case get_sensor_data w1 resp of
                       (None, w2) \<Rightarrow>
                         (Inr \<lparr>allowed = False, message = [NO_MOISTURE_DATA],
                               severity = DANGER\<rparr>, w2)
                     | (Some sd, w2) \<Rightarrow>
                         (Inr (moisture_check warning_message warning_level sd), w2)))))"

section \<open>Watering and its record\<close>

text \<open>
  \<^verbatim>\<open>water_plant\<close> of bot.py. \<open>resp\<close> is the device's answer to the watering request.
  An exception raised while the history is updated escapes before \<^verbatim>\<open>save_config\<close>.
\<close>

definition water_plant ::
  "world \<Rightarrow> response \<Rightarrow> int \<Rightarrow> datetime \<Rightarrow> (py_error + bool \<times> water_message) \<times> world" where
  "water_plant w resp duration_seconds now =
     (if \<not> connected w then (Inr (False, NO_LINK_TO_WATERING_SYSTEM), w)
      else
        (case nodemcu_water_plant w resp of
           (success, msg) \<Rightarrow>
             if success then
               (let config = load_config (config_file w);
                    today = date_of now
                in (case py_item config ''last_watering_date'' of
                      Inl e \<Rightarrow> (Inl e, w)
                    | Inr lwd \<Rightarrow>
                        (let config = (if lwd \<noteq> JStr (str_date today)
                                       then config(''watering_count_today'' \<mapsto> JInt 0)
                                       else config);
                             config = config(''last_watering'' \<mapsto> JStr (isoformat now));
                             config = config(''last_watering_date'' \<mapsto> JStr (str_date today))
                         in (case py_item config ''watering_count_today'' of
                               Inl e \<Rightarrow> (Inl e, w)
                             | Inr cnt \<Rightarrow>
                                 (case py_add_1 cnt of
                                    Inl e \<Rightarrow> (Inl e, w)
                                  | Inr cnt' \<Rightarrow>
                                      (Inr (success, msg),
                                       fst (save_config w
                                         (config(''watering_count_today'' \<mapsto> cnt')))))))))
             else (Inr (success, msg), w)))"

section \<open>The other writers of the settings\<close>

text \<open>
  \<^verbatim>\<open>handle_message\<close>, the button "do not ask again today" (lines 680-683): sets the flag
  and today's date and saves.
\<close>

definition dont_ask_again_today :: "world \<Rightarrow> datetime \<Rightarrow> world" where
  "dont_ask_again_today w now =
     (let config = load_config (config_file w);
          config = config(''dont_ask_again_today'' \<mapsto> JBool True);
          config = config(''dont_ask_again_date'' \<mapsto> JStr (str_date (date_of now)))
      in fst (save_config w config))"

text \<open>
  The \<^verbatim>\<open>update_config\<close> calls of \<^verbatim>\<open>handle_message\<close>: the menu buttons and the
  dictionary each one passes.
\<close>

datatype menu_action =
    EnableSmart | EnableSchedule | SwitchToSchedule | SwitchToSmart | DisableAuto
  | SetDuration3 | SetDuration5 | SetDuration10
  | SetNotifications bool
  | SetMorningTime string | SetEveningTime string

fun menu_settings :: "menu_action \<Rightarrow> (string \<times> jval) list" where
  "menu_settings EnableSmart = [(''auto_mode'', JBool True), (''auto_mode_type'', JStr ''smart'')]"
| "menu_settings EnableSchedule =
     [(''auto_mode'', JBool True), (''auto_mode_type'', JStr ''schedule'')]"
| "menu_settings SwitchToSchedule = [(''auto_mode_type'', JStr ''schedule'')]"
| "menu_settings SwitchToSmart = [(''auto_mode_type'', JStr ''smart'')]"
| "menu_settings DisableAuto = [(''auto_mode'', JBool False)]"
| "menu_settings SetDuration3 = [(''watering_duration'', JInt 3)]"
| "menu_settings SetDuration5 = [(''watering_duration'', JInt 5)]"
| "menu_settings SetDuration10 = [(''watering_duration'', JInt 10)]"
| "menu_settings (SetNotifications b) = [(''notifications'', JBool b)]"
| "menu_settings (SetMorningTime t) = [(''schedule_morning_time'', JStr t)]"
| "menu_settings (SetEveningTime t) = [(''schedule_evening_time'', JStr t)]"

text \<open>
  The settings files the program can reach from a missing or unreadable file through its
  own writers, with any answers of the device and any outcome of each write.
\<close>

inductive reachable :: "file_state \<Rightarrow> bool" where
  start_absent: "reachable Absent"
| start_unreadable: "reachable Unreadable"
| by_water_plant:
    "reachable (config_file w) \<Longrightarrow> valid_datetime now \<Longrightarrow>
     reachable (config_file (snd (water_plant w resp duration_seconds now)))"
| by_check:
    "reachable (config_file w) \<Longrightarrow> valid_datetime now \<Longrightarrow>
     reachable (config_file (snd (check_watering_restrictions w resp now)))"
| by_dont_ask:
    "reachable (config_file w) \<Longrightarrow> valid_datetime now \<Longrightarrow>
     reachable (config_file (dont_ask_again_today w now))"
| by_menu:
    "reachable (config_file w) \<Longrightarrow>
     reachable (config_file (snd (update_config w (map_of (menu_settings a)))))"

section \<open>Notions used to state the properties\<close>

text \<open>The order of the severities, from no concern to danger.\<close>

fun level_rank :: "level \<Rightarrow> nat" where
  "level_rank OK = 0"
| "level_rank INFO = 1"
| "level_rank WARNING = 2"
| "level_rank DANGER = 3"

text \<open>
  The bypass is in effect at \<open>now\<close>: the stored flag is set and its date is today's, so the
  reset of lines 181-186 leaves it standing.
\<close>

definition bypass_active :: "config \<Rightarrow> datetime \<Rightarrow> bool" where
  "bypass_active config now =
     (py_get config ''dont_ask_again_date'' = JStr (str_date (date_of now))
      \<and> truthy (py_get config ''dont_ask_again_today''))"

text \<open>
  The watering history of a settings record is well formed: the date of the last watering is
  \<^verbatim>\<open>None\<close>, or it is a date string and the time of the last watering is a timestamp
  string, both readable by \<^verbatim>\<open>fromisoformat\<close>; and the counter is an integer.
\<close>

definition history_ok :: "config \<Rightarrow> bool" where
  "history_ok config =
     ((case config ''last_watering_date'' of
         Some JNull \<Rightarrow> True
       | Some (JStr s) \<Rightarrow>
           parse_date s \<noteq> None \<and>
           (case config ''last_watering'' of
              Some (JStr t) \<Rightarrow> fromisoformat_str t \<noteq> None
            | _ \<Rightarrow> False)
       | _ \<Rightarrow> False)
      \<and> (case config ''watering_count_today'' of Some (JInt n) \<Rightarrow> True | _ \<Rightarrow> False))"

section \<open>Example inputs\<close>

text \<open>Concrete settings, device answers and instants at which the properties are evaluated.\<close>

definition example_now :: datetime where
  "example_now =
     \<lparr>year = 2024, month = 5, day = 1, hour = 12, minute = 0, second = 0, microsecond = 0\<rparr>"

definition example_reading :: "int \<Rightarrow> response" where
  "example_reading r =
     HttpResponse 200 (Some (map_of [(''moisture'', JInt r), (''status'', JStr ''OK'')]))"

definition example_sensor_data :: "int \<Rightarrow> sensor_data" where
  "example_sensor_data r =
     \<lparr>moisture_percent = moisture_percent_of r, moisture_raw = r, status = JStr ''OK''\<rparr>"

definition example_world :: "(string \<times> jval) list \<Rightarrow> world" where
  "example_world items = \<lparr>config_file = Stored (map_of items), writable = True, connected = True\<rparr>"

definition bypass_set_today :: "(string \<times> jval) list" where
  "bypass_set_today =
     [(''dont_ask_again_today'', JBool True),
      (''dont_ask_again_date'', JStr ''2024-05-01''),
      (''last_watering_date'', JStr ''2024-05-01''),
      (''last_watering'', JStr ''2024-05-01T11:59:00''),
      (''watering_count_today'', JInt 1)]"

definition example_last :: datetime where
  "example_last =
     \<lparr>year = 2024, month = 5, day = 1, hour = 9, minute = 0, second = 0, microsecond = 0\<rparr>"

definition watered_3h_ago :: "(string \<times> jval) list" where
  "watered_3h_ago =
     [(''last_watering_date'', JStr ''2024-05-01''),
      (''last_watering'', JStr ''2024-05-01T09:00:00''),
      (''watering_count_today'', JInt 1)]"

definition watered_yesterday :: "(string \<times> jval) list" where
  "watered_yesterday =
     [(''last_watering_date'', JStr ''2024-04-30''),
      (''last_watering'', JStr ''2024-04-30T08:00:00''),
      (''watering_count_today'', JInt 3)]"

definition fresh_world :: world where
  "fresh_world = \<lparr>config_file = Absent, writable = True, connected = True\<rparr>"

definition example_later :: datetime where
  "example_later =
     \<lparr>year = 2024, month = 5, day = 1, hour = 18, minute = 30, second = 0, microsecond = 0\<rparr>"

section \<open>Facts about dates and ISO strings\<close>

lemma digit_val_digit_char: "d < 10 \<Longrightarrow> digit_val (digit_char d) = Some d"
proof -
  assume "d < 10"
  then have "d = 0 \<or> d = 1 \<or> d = 2 \<or> d = 3 \<or> d = 4 \<or> d = 5 \<or> d = 6 \<or> d = 7 \<or> d = 8 \<or> d = 9"
    by arith
  then show ?thesis
    by (elim disjE) (simp_all add: digit_val_def digit_char_def decimal_digits_def)
qed

lemma digits_value_append:
  "digits_value acc (xs @ ys) =
     (case digits_value acc xs of None \<Rightarrow> None | Some a \<Rightarrow> digits_value a ys)"
  by (induction xs arbitrary: acc) (auto split: option.splits)

lemma digits_value_zero_pad:
  "n < 10 ^ w \<Longrightarrow> digits_value acc (zero_pad w n) = Some (acc * 10 ^ w + n)"
proof (induction w arbitrary: n acc)
  case 0
  then show ?case by simp
next
  case (Suc w)
  have d: "n div 10 < 10 ^ w" using Suc.prems by (simp add: less_mult_imp_div_less)
  have m: "n mod 10 < 10" by simp
  show ?case
    using Suc.IH [OF d, of acc] digit_val_digit_char [OF m]
    by (simp add: digits_value_append algebra_simps)
qed

lemma length_zero_pad: "length (zero_pad w n) = w"
  by (induction w arbitrary: n) auto

lemma days_in_month_le: "days_in_month y m \<le> 31"
  by (simp add: days_in_month_def)

lemma length_str_date: "length (str_date d) = 10"
  by (cases d) (simp add: str_date_def length_zero_pad)

lemma parse_date_str_date:
  assumes "valid_date d"
  shows "parse_date (str_date d) = Some d"
proof -
  obtain y m dd where d: "d = (y, m, dd)" by (cases d) auto
  from assms d have y: "y < 10 ^ 4" and m: "m < 10 ^ 2"
    by (simp_all add: valid_date_def)
  from assms d have "dd \<le> days_in_month y m" by (simp add: valid_date_def)
  with days_in_month_le [of y m] have dd: "dd < 10 ^ 2" by simp
  have l4: "length (zero_pad 4 y) = 4" and l2: "length (zero_pad 2 m) = 2"
    and l2': "length (zero_pad 2 dd) = 2"
    by (simp_all only: length_zero_pad)
  have n1: "str_date d ! 4 = CHR ''-''"
    using l4 by (simp add: str_date_def d nth_append)
  have n2: "str_date d ! 7 = CHR ''-''"
    using l4 l2 by (simp add: str_date_def d nth_append)
  have t1: "take 4 (str_date d) = zero_pad 4 y"
    using l4 by (simp add: str_date_def d)
  have t2: "take 2 (drop 5 (str_date d)) = zero_pad 2 m"
    using l4 l2 by (simp add: str_date_def d)
  have t3: "drop 8 (str_date d) = zero_pad 2 dd"
    using l4 l2 by (simp add: str_date_def d)
  show ?thesis
    unfolding parse_date_def t1 t2 t3
    using n1 n2 assms d digits_value_zero_pad [OF y, of 0] digits_value_zero_pad [OF m, of 0]
      digits_value_zero_pad [OF dd, of 0]
    by (simp add: length_str_date)
qed

lemma take_10_isoformat: "take 10 (isoformat dt) = str_date (date_of dt)"
  by (simp add: isoformat_def length_str_date)

lemma drop_11_isoformat:
  "drop 11 (isoformat dt) =
     zero_pad 2 (hour dt) @ '':'' @ zero_pad 2 (minute dt) @ '':'' @ zero_pad 2 (second dt)
       @ (if microsecond dt = 0 then [] else ''.'' @ zero_pad 6 (microsecond dt))"
  by (simp add: isoformat_def length_str_date)

lemma length_isoformat: "10 < length (isoformat dt)"
  by (simp add: isoformat_def length_str_date)

lemma parse_time_roundtrip:
  assumes h: "h < 24" and mi: "mi < 60" and s: "sec < 60" and us: "us < 1000000"
  shows "parse_time (zero_pad 2 h @ '':'' @ zero_pad 2 mi @ '':'' @ zero_pad 2 sec
           @ (if us = 0 then [] else ''.'' @ zero_pad 6 us)) = Some (h, mi, sec, us)"
proof -
  let ?t = "zero_pad 2 h @ '':'' @ zero_pad 2 mi @ '':'' @ zero_pad 2 sec
           @ (if us = 0 then [] else ''.'' @ zero_pad 6 us)"
  have lh: "length (zero_pad 2 h) = 2" and lm: "length (zero_pad 2 mi) = 2"
    and ls: "length (zero_pad 2 sec) = 2" and lu: "length (zero_pad 6 us) = 6"
    by (simp_all only: length_zero_pad)
  have h': "h < 10 ^ 2" and mi': "mi < 10 ^ 2" and s': "sec < 10 ^ 2" and us': "us < 10 ^ 6"
    using assms by simp_all
  have len: "length ?t = (if us = 0 then 8 else 15)"
    using lh lm ls lu by simp
  have n2: "?t ! 2 = CHR '':''" using lh by (simp add: nth_append)
  have n5: "?t ! 5 = CHR '':''" using lh lm by (simp add: nth_append)
  have n8: "us \<noteq> 0 \<Longrightarrow> ?t ! 8 = CHR ''.''" using lh lm ls by (simp add: nth_append)
  have t1: "take 2 ?t = zero_pad 2 h" using lh by simp
  have t2: "take 2 (drop 3 ?t) = zero_pad 2 mi" using lh lm by simp
  have t3: "take 2 (drop 6 ?t) = zero_pad 2 sec" using lh lm ls by simp
  have t4: "drop 9 ?t = (if us = 0 then [] else zero_pad 6 us)" using lh lm ls by simp
  have v4: "digits_value 0 (drop 9 ?t) = Some us"
    unfolding t4 using digits_value_zero_pad [OF us', of 0] by simp
  show ?thesis
    unfolding parse_time_def t1 t2 t3 v4 len
    using n2 n5 n8 h mi s digits_value_zero_pad [OF h', of 0]
      digits_value_zero_pad [OF mi', of 0] digits_value_zero_pad [OF s', of 0]
    by (simp del: zero_pad.simps)
qed

lemma fromisoformat_str_isoformat:
  assumes "valid_datetime dt"
  shows "fromisoformat_str (isoformat dt) = Some dt"
proof -
  have d: "parse_date (str_date (date_of dt)) = Some (date_of dt)"
    using assms by (simp add: valid_datetime_def parse_date_str_date)
  have t: "parse_time (drop 11 (isoformat dt))
             = Some (hour dt, minute dt, second dt, microsecond dt)"
    unfolding drop_11_isoformat
    using assms by (intro parse_time_roundtrip) (simp_all add: valid_datetime_def)
  show ?thesis
    unfolding fromisoformat_str_def take_10_isoformat d t
    using length_isoformat [of dt] by (simp add: date_of_def)
qed

lemma fromisoformat_str_str_date:
  assumes "valid_date d"
  shows "fromisoformat_str (str_date d) =
           Some \<lparr>year = fst d, month = fst (snd d), day = snd (snd d), hour = 0, minute = 0,
                 second = 0, microsecond = 0\<rparr>"
  using assms
  by (cases d) (simp add: fromisoformat_str_def length_str_date parse_date_str_date)

lemma zero_pad_2: "zero_pad 2 n = [digit_char (n div 10 mod 10), digit_char (n mod 10)]"
proof -
  have e: "(2::nat) = Suc (Suc 0)" by simp
  show ?thesis unfolding e by simp
qed

lemma zero_pad_4:
  "zero_pad 4 n = [digit_char (n div 10 div 10 div 10 mod 10), digit_char (n div 10 div 10 mod 10),
                   digit_char (n div 10 mod 10), digit_char (n mod 10)]"
proof -
  have e: "(4::nat) = Suc (Suc (Suc (Suc 0)))" by simp
  show ?thesis unfolding e by simp
qed

lemma zero_pad_6:
  "zero_pad 6 n = [digit_char (n div 10 div 10 div 10 div 10 div 10 mod 10),
                   digit_char (n div 10 div 10 div 10 div 10 mod 10),
                   digit_char (n div 10 div 10 div 10 mod 10), digit_char (n div 10 div 10 mod 10),
                   digit_char (n div 10 mod 10), digit_char (n mod 10)]"
proof -
  have e: "(6::nat) = Suc (Suc (Suc (Suc (Suc (Suc 0)))))" by simp
  show ?thesis unfolding e by simp
qed

lemma str_date_example: "str_date (date_of example_now) = ''2024-05-01''"
  by (simp add: str_date_def date_of_def example_now_def zero_pad_2 zero_pad_4 digit_char_def
        decimal_digits_def)

lemma iso_example: "isoformat example_now = ''2024-05-01T12:00:00''"
  by (simp add: isoformat_def str_date_def date_of_def example_now_def zero_pad_2 zero_pad_4 digit_char_def
        decimal_digits_def)

lemma micros_example: "to_micros example_now = 63850248000000000"
  by (simp add: to_micros_def ymd2ord_def days_before_year_def days_before_month_def
        is_leap_def date_of_def example_now_def)

lemma valid_example: "valid_datetime example_now"
  by (simp add: valid_datetime_def valid_date_def days_in_month_def date_of_def example_now_def)

section \<open>Facts about the settings store\<close>

lemma fold_fill_map_add:
  "fold (\<lambda>(k, v) cfg. if cfg k = None then cfg(k \<mapsto> v) else cfg) xs c = map_of xs ++ c"
proof (induction xs arbitrary: c)
  case Nil
  show ?case by simp
next
  case (Cons kv xs)
  obtain k v where kv: "kv = (k, v)" by (cases kv) auto
  show ?case
    unfolding kv
    by (simp add: Cons.IH) (auto simp: map_add_def fun_eq_iff split: option.splits)
qed

lemma fill_defaults_eq: "fill_defaults c = DEFAULT_CONFIG ++ c"
  by (simp add: fill_defaults_def DEFAULT_CONFIG_def fold_fill_map_add)

lemma load_config_Stored:
  "load_config (Stored c) k = (case c k of None \<Rightarrow> DEFAULT_CONFIG k | Some v \<Rightarrow> Some v)"
  by (simp add: load_config_def fill_defaults_eq map_add_def)

lemma DEFAULT_CONFIG_history:
  "DEFAULT_CONFIG ''last_watering'' = Some JNull"
  "DEFAULT_CONFIG ''watering_count_today'' = Some (JInt 0)"
  "DEFAULT_CONFIG ''last_watering_date'' = Some JNull"
  "DEFAULT_CONFIG ''dont_ask_again_today'' = Some (JBool False)"
  "DEFAULT_CONFIG ''dont_ask_again_date'' = None"
  by (simp_all add: DEFAULT_CONFIG_def DEFAULT_ITEMS_def)

lemma load_config_has_history:
  "load_config f ''last_watering'' \<noteq> None"
  "load_config f ''watering_count_today'' \<noteq> None"
  "load_config f ''last_watering_date'' \<noteq> None"
  by (cases f; simp add: load_config_Stored DEFAULT_CONFIG_history split: option.splits;
      simp add: load_config_def DEFAULT_CONFIG_history)+

lemma dom_DEFAULT_load: "dom DEFAULT_CONFIG \<subseteq> dom (load_config f)"
  by (cases f) (auto simp: load_config_def fill_defaults_eq)

lemma load_config_Stored_full: "dom DEFAULT_CONFIG \<subseteq> dom c \<Longrightarrow> load_config (Stored c) = c"
  by (auto simp: load_config_def fill_defaults_eq map_add_def fun_eq_iff split: option.splits)

section \<open>Facts about the watering checks\<close>

lemma get_sensor_data_config_file:
  "get_sensor_data (w\<lparr>config_file := f\<rparr>) resp
     = (fst (get_sensor_data w resp), (snd (get_sensor_data w resp))\<lparr>config_file := f\<rparr>)"
  by (simp add: get_sensor_data_def get_moisture_def
           split: response.splits option.splits jval.splits)

lemma get_sensor_data_keeps_file:
  "config_file (snd (get_sensor_data w resp)) = config_file w"
  by (simp add: get_sensor_data_def get_moisture_def
           split: response.splits option.splits jval.splits)

lemma reset_dont_ask_world:
  "snd (reset_dont_ask w c d) = w \<or>
   snd (reset_dont_ask w c d) = w\<lparr>config_file := config_file (snd (reset_dont_ask w c d))\<rparr>"
  by (simp add: reset_dont_ask_def save_config_def Let_def)

lemma reset_dont_ask_sensor:
  "fst (get_sensor_data (snd (reset_dont_ask w c d)) resp) = fst (get_sensor_data w resp)"
  using reset_dont_ask_world [of w c d]
  by (metis fst_conv get_sensor_data_config_file)

lemma reset_dont_ask_sensor_file:
  "config_file (snd (get_sensor_data (snd (reset_dont_ask w c d)) resp))
     = config_file (snd (reset_dont_ask w c d))"
  by (rule get_sensor_data_keeps_file)

lemma reset_dont_ask_flag:
  "truthy (py_get (fst (reset_dont_ask w c (date_of now))) ''dont_ask_again_today'')
     = bypass_active c now"
  by (simp add: reset_dont_ask_def bypass_active_def Let_def py_get_def)

lemma frequency_check_cong:
  assumes "c ''last_watering_date'' = c' ''last_watering_date''"
    and "c ''watering_count_today'' = c' ''watering_count_today''"
    and "c ''last_watering'' = c' ''last_watering''"
  shows "frequency_check c now = frequency_check c' now"
  unfolding frequency_check_def py_item_def assms ..

lemma reset_dont_ask_frequency:
  "frequency_check (fst (reset_dont_ask w c d)) now = frequency_check c now"
  by (rule frequency_check_cong) (simp_all add: reset_dont_ask_def Let_def)

lemma check_connected:
  assumes "connected w"
  shows "fst (check_watering_restrictions w resp now) =
     (if bypass_active (load_config (config_file w)) now then
        Inr \<lparr>allowed = True, message = [CAN_WATER], severity = OK\<rparr>
      else
        (case frequency_check (load_config (config_file w)) now of
           Inl e \<Rightarrow> Inl e
         | Inr (warning_message, warning_level) \<Rightarrow>
             (case fst (get_sensor_data w resp) of
                None \<Rightarrow> Inr \<lparr>allowed = False, message = [NO_MOISTURE_DATA], severity = DANGER\<rparr>
              | Some sd \<Rightarrow> Inr (moisture_check warning_message warning_level sd))))"
proof -
  let ?c = "load_config (config_file w)"
  let ?r = "reset_dont_ask w ?c (date_of now)"
  have r: "reset_dont_ask w ?c (date_of now) = (fst ?r, snd ?r)" by simp
  have s: "get_sensor_data (snd ?r) resp
             = (fst (get_sensor_data w resp), snd (get_sensor_data (snd ?r) resp))"
    using reset_dont_ask_sensor [of w ?c "date_of now" resp]
    by (metis prod.collapse)
  show ?thesis
    unfolding check_watering_restrictions_def Let_def
    apply (subst r)
    apply (simp only: prod.case assms not_True_eq_False if_False reset_dont_ask_flag
             reset_dont_ask_frequency)
    apply (subst s)
    apply (simp split: sum.splits option.splits prod.splits)
    done
qed

lemma check_connected_file:
  assumes "connected w"
  shows "config_file (snd (check_watering_restrictions w resp now))
           = config_file (snd (reset_dont_ask w (load_config (config_file w)) (date_of now)))"
proof -
  let ?c = "load_config (config_file w)"
  let ?r = "reset_dont_ask w ?c (date_of now)"
  have r: "reset_dont_ask w ?c (date_of now) = (fst ?r, snd ?r)" by simp
  have k: "config_file (snd (get_sensor_data (snd ?r) resp)) = config_file (snd ?r)"
    by (rule get_sensor_data_keeps_file)
  show ?thesis
    unfolding check_watering_restrictions_def Let_def
    apply (subst r)
    apply (simp only: prod.case assms not_True_eq_False if_False)
    using k
    apply (auto split: sum.splits option.splits prod.splits)
    done
qed

lemma str_date_nonempty: "str_date d \<noteq> []"
  using length_str_date [of d] by auto

lemma fromisoformat_str_date:
  assumes "valid_date d"
  shows "\<exists>dt. fromisoformat (JStr (str_date d)) = Inr dt \<and> date_of dt = d"
  using fromisoformat_str_str_date [OF assms]
  by (simp add: fromisoformat_def date_of_def)

lemma fromisoformat_isoformat:
  "valid_datetime t \<Longrightarrow> fromisoformat (JStr (isoformat t)) = Inr t"
  by (simp add: fromisoformat_def fromisoformat_str_isoformat)

lemma frequency_check_same_day:
  assumes d: "c ''last_watering_date'' = Some (JStr (str_date (date_of now)))"
    and now: "valid_datetime now"
    and n: "c ''watering_count_today'' = Some (JInt n)" "1 \<le> n"
    and l: "c ''last_watering'' = Some (JStr (isoformat prev))" "valid_datetime prev"
  shows "frequency_check c now =
           (let us = to_micros now - to_micros prev in
            if us < 6 * 3600000000 then Inr (Some [TOO_FREQUENT], DANGER)
            else if us < 12 * 3600000000 then
              Inr (Some [ALREADY_TODAY (JInt n) (us div 3600000000)], WARNING)
            else Inr (Some [INFO_TODAY (us div 3600000000)], INFO))"
proof -
  from now have "valid_date (date_of now)" by (simp add: valid_datetime_def)
  from fromisoformat_str_date [OF this] obtain dt
    where dt: "fromisoformat (JStr (str_date (date_of now))) = Inr dt" "date_of dt = date_of now"
    by blast
  show ?thesis
    unfolding frequency_check_def
    by (simp add: py_item_def d n l dt str_date_nonempty fromisoformat_isoformat)
qed

lemma frequency_check_no_same_day:
  assumes "c ''last_watering_date'' = Some JNull
           \<or> (valid_date d \<and> d \<noteq> date_of now \<and> c ''last_watering_date'' = Some (JStr (str_date d)))
           \<or> (valid_datetime now \<and> c ''last_watering_date'' = Some (JStr (str_date (date_of now)))
               \<and> c ''watering_count_today'' = Some (JInt n) \<and> n < 1)"
  shows "frequency_check c now = Inr (None, OK)"
proof -
  consider (a) "c ''last_watering_date'' = Some JNull"
    | (b) "valid_date d" "d \<noteq> date_of now" "c ''last_watering_date'' = Some (JStr (str_date d))"
    | (c) "valid_datetime now" "c ''last_watering_date'' = Some (JStr (str_date (date_of now)))"
          "c ''watering_count_today'' = Some (JInt n)" "n < 1"
    using assms by blast
  then show ?thesis
  proof cases
    case a
    then show ?thesis by (simp add: frequency_check_def py_item_def)
  next
    case b
    from fromisoformat_str_date [OF b(1)] obtain dt
      where "fromisoformat (JStr (str_date d)) = Inr dt" "date_of dt = d" by blast
    with b show ?thesis
      by (simp add: frequency_check_def py_item_def str_date_nonempty)
  next
    case c
    from c(1) have "valid_date (date_of now)" by (simp add: valid_datetime_def)
    from fromisoformat_str_date [OF this] obtain dt
      where "fromisoformat (JStr (str_date (date_of now))) = Inr dt" "date_of dt = date_of now"
      by blast
    with c show ?thesis
      by (simp add: frequency_check_def py_item_def str_date_nonempty)
  qed
qed

lemma moisture_check_dry:
  "310 \<le> moisture_raw sd \<Longrightarrow>
   moisture_check wm wl sd =
     (case wm of Some m \<Rightarrow> \<lparr>allowed = True, message = m, severity = wl\<rparr>
      | None \<Rightarrow> \<lparr>allowed = True, message = [CAN_WATER], severity = OK\<rparr>)"
  by (simp add: moisture_check_def)

lemma moisture_check_wet:
  "moisture_raw sd < 310 \<Longrightarrow>
   moisture_check wm wl sd =
     \<lparr>allowed = True,
      message = (case wm of Some m \<Rightarrow> m | None \<Rightarrow> []) @ [TOO_WET (moisture_raw sd)],
      severity = DANGER\<rparr>"
  by (simp add: moisture_check_def split: option.splits)

lemma frequency_check_None_OK:
  "frequency_check c now = Inr (None, wl) \<Longrightarrow> wl = OK"
  by (auto simp: frequency_check_def Let_def split: sum.splits if_splits bool.splits)

lemma get_sensor_data_disconnected: "\<not> connected w \<Longrightarrow> get_sensor_data w resp = (None, w)"
  by (simp add: get_sensor_data_def)

lemma reset_dont_ask_saved:
  assumes "writable w"
    and "py_get c ''dont_ask_again_date'' \<noteq> JStr (str_date d)"
  shows "config_file (snd (reset_dont_ask w c d))
           = Stored (c(''dont_ask_again_today'' \<mapsto> JBool False,
                       ''dont_ask_again_date'' \<mapsto> JStr (str_date d)))"
  using assms by (simp add: reset_dont_ask_def save_config_def Let_def)

section \<open>Facts about the example inputs\<close>

lemma example_world_simps:
  "connected (example_world xs)" "writable (example_world xs)"
  "config_file (example_world xs) = Stored (map_of xs)"
  by (simp_all add: example_world_def)

lemma example_reading_sensor:
  "fst (get_sensor_data (example_world xs) (example_reading 300)) = Some (example_sensor_data 300)"
  "fst (get_sensor_data (example_world xs) (example_reading 400)) = Some (example_sensor_data 400)"
  "fst (get_sensor_data (example_world xs) (example_reading 450)) = Some (example_sensor_data 450)"
  by (simp_all add: get_sensor_data_def get_moisture_def example_world_def example_reading_def
        py_get_def percent_overflows_def example_sensor_data_def)

lemma example_no_response:
  "fst (get_sensor_data (example_world xs) NoResponse) = None"
  by (simp add: get_sensor_data_def get_moisture_def example_world_def)

lemma iso_example_last: "isoformat example_last = ''2024-05-01T09:00:00''"
  by (simp add: isoformat_def str_date_def date_of_def example_last_def zero_pad_2 zero_pad_4
        digit_char_def decimal_digits_def)

lemma micros_example_last: "to_micros example_last = 63850237200000000"
  by (simp add: to_micros_def ymd2ord_def days_before_year_def days_before_month_def
        is_leap_def date_of_def example_last_def)

lemma valid_example_last: "valid_datetime example_last"
  by (simp add: valid_datetime_def valid_date_def days_in_month_def date_of_def example_last_def)

lemma watered_3h_ago_config:
  "load_config (config_file (example_world watered_3h_ago)) ''last_watering_date''
     = Some (JStr (str_date (date_of example_now)))"
  "load_config (config_file (example_world watered_3h_ago)) ''watering_count_today''
     = Some (JInt 1)"
  "load_config (config_file (example_world watered_3h_ago)) ''last_watering''
     = Some (JStr (isoformat example_last))"
  "\<not> bypass_active (load_config (config_file (example_world watered_3h_ago))) example_now"
  by (simp_all add: example_world_simps load_config_Stored watered_3h_ago_def str_date_example
        iso_example_last bypass_active_def py_get_def DEFAULT_CONFIG_history)

lemma empty_config:
  "load_config (config_file (example_world [])) ''last_watering_date'' = Some JNull"
  "\<not> bypass_active (load_config (config_file (example_world []))) example_now"
  by (simp_all add: example_world_simps load_config_Stored DEFAULT_CONFIG_history
        bypass_active_def py_get_def)

lemma frequency_3h_ago:
  "frequency_check (load_config (config_file (example_world watered_3h_ago))) example_now
     = Inr (Some [TOO_FREQUENT], DANGER)"
  using frequency_check_same_day [OF watered_3h_ago_config(1) valid_example
      watered_3h_ago_config(2) _ watered_3h_ago_config(3) valid_example_last]
  by (simp add: micros_example micros_example_last)

lemma str_date_yesterday: "str_date (2024, 4, 30) = ''2024-04-30''"
  by (simp add: str_date_def zero_pad_2 zero_pad_4 digit_char_def decimal_digits_def)

section \<open>Facts about watering and the reachable settings\<close>

lemma water_plant_success:
  assumes c: "connected w" and r: "resp = HttpResponse 200 body"
    and n: "load_config (config_file w) ''last_watering_date''
              = Some (JStr (str_date (date_of now)))
            \<longrightarrow> load_config (config_file w) ''watering_count_today'' = Some (JInt n)"
  shows "water_plant w resp duration_seconds now =
           (Inr (True, WATERING_DONE),
            fst (save_config w
              (\<lambda>k. if k = ''watering_count_today'' then
                      Some (JInt ((if load_config (config_file w) ''last_watering_date''
                                        = Some (JStr (str_date (date_of now)))
                                   then n else 0) + 1))
                    else if k = ''last_watering_date'' then Some (JStr (str_date (date_of now)))
                    else if k = ''last_watering'' then Some (JStr (isoformat now))
                    else load_config (config_file w) k)))"
proof -
  let ?c = "load_config (config_file w)"
  obtain v where v: "?c ''last_watering_date'' = Some v"
    using load_config_has_history(3) [of "config_file w"] by blast
  obtain u where u: "?c ''watering_count_today'' = Some u"
    using load_config_has_history(2) [of "config_file w"] by blast
  show ?thesis
  proof (cases "v = JStr (str_date (date_of now))")
    case True
    with v n have cnt: "?c ''watering_count_today'' = Some (JInt n)" by simp
    have "(?c(''last_watering'' \<mapsto> JStr (isoformat now),
              ''last_watering_date'' \<mapsto> JStr (str_date (date_of now)),
              ''watering_count_today'' \<mapsto> JInt (n + 1)))
          = (\<lambda>k. if k = ''watering_count_today'' then Some (JInt (n + 1))
                    else if k = ''last_watering_date'' then Some (JStr (str_date (date_of now)))
                    else if k = ''last_watering'' then Some (JStr (isoformat now))
                    else ?c k)"
      by (auto simp: fun_eq_iff)
    with True v cnt show ?thesis
      by (simp add: water_plant_def nodemcu_water_plant_def c r py_item_def Let_def)
  next
    case False
    have "(?c(''watering_count_today'' \<mapsto> JInt 0,
              ''last_watering'' \<mapsto> JStr (isoformat now),
              ''last_watering_date'' \<mapsto> JStr (str_date (date_of now)),
              ''watering_count_today'' \<mapsto> JInt 1))
          = (\<lambda>k. if k = ''watering_count_today'' then Some (JInt 1)
                    else if k = ''last_watering_date'' then Some (JStr (str_date (date_of now)))
                    else if k = ''last_watering'' then Some (JStr (isoformat now))
                    else ?c k)"
      by (auto simp: fun_eq_iff)
    with False v show ?thesis
      by (simp add: water_plant_def nodemcu_water_plant_def c r py_item_def Let_def
            cong: if_cong)
  qed
qed

lemma load_config_recorded:
  fixes f :: file_state and a b c :: jval
  defines "c' \<equiv> (\<lambda>k. if k = ''watering_count_today'' then Some a
                    else if k = ''last_watering_date'' then Some b
                    else if k = ''last_watering'' then Some c
                    else load_config f k)"
  shows "load_config (Stored c') = c'"
proof (rule load_config_Stored_full)
  have "dom (load_config f) \<subseteq> dom c'"
    by (auto simp: c'_def)
  with dom_DEFAULT_load [of f] show "dom DEFAULT_CONFIG \<subseteq> dom c'" by blast
qed

lemma history_ok_cong:
  assumes "c ''last_watering_date'' = c' ''last_watering_date''"
    and "c ''watering_count_today'' = c' ''watering_count_today''"
    and "c ''last_watering'' = c' ''last_watering''"
  shows "history_ok c = history_ok c'"
  unfolding history_ok_def assms ..

lemma history_ok_start: "history_ok (load_config Absent)" "history_ok (load_config Unreadable)"
  by (simp_all add: history_ok_def load_config_def DEFAULT_CONFIG_history)

lemma history_ok_Stored_same:
  assumes "c' ''last_watering_date'' = load_config f ''last_watering_date''"
    and "c' ''watering_count_today'' = load_config f ''watering_count_today''"
    and "c' ''last_watering'' = load_config f ''last_watering''"
  shows "history_ok (load_config (Stored c')) = history_ok (load_config f)"
proof (rule history_ok_cong)
  show "load_config (Stored c') ''last_watering_date'' = load_config f ''last_watering_date''"
    using assms(1) load_config_has_history(3) [of f]
    by (auto simp: load_config_Stored split: option.splits)
  show "load_config (Stored c') ''watering_count_today'' = load_config f ''watering_count_today''"
    using assms(2) load_config_has_history(2) [of f]
    by (auto simp: load_config_Stored split: option.splits)
  show "load_config (Stored c') ''last_watering'' = load_config f ''last_watering''"
    using assms(3) load_config_has_history(1) [of f]
    by (auto simp: load_config_Stored split: option.splits)
qed

lemma save_config_file:
  "config_file (fst (save_config w c)) = config_file w
   \<or> config_file (fst (save_config w c)) = Stored c"
  by (simp add: save_config_def)

lemma history_ok_reset:
  "history_ok (load_config (config_file (snd (reset_dont_ask w (load_config (config_file w)) d))))
     = history_ok (load_config (config_file w))"
proof -
  let ?c = "load_config (config_file w)"
  let ?c' = "?c(''dont_ask_again_today'' \<mapsto> JBool False,
                ''dont_ask_again_date'' \<mapsto> JStr (str_date d))"
  have "config_file (snd (reset_dont_ask w ?c d)) = config_file w
        \<or> config_file (snd (reset_dont_ask w ?c d)) = Stored ?c'"
    using save_config_file [of w ?c'] by (auto simp: reset_dont_ask_def Let_def)
  moreover have "history_ok (load_config (Stored ?c')) = history_ok ?c"
    by (rule history_ok_Stored_same) simp_all
  ultimately show ?thesis by auto
qed

lemma history_ok_check:
  "history_ok (load_config (config_file (snd (check_watering_restrictions w resp now))))
     = history_ok (load_config (config_file w))"
proof (cases "connected w")
  case True
  show ?thesis
    unfolding check_connected_file [OF True] by (rule history_ok_reset)
next
  case False
  then show ?thesis by (simp add: check_watering_restrictions_def)
qed

lemma history_ok_dont_ask:
  "history_ok (load_config (config_file (dont_ask_again_today w now)))
     = history_ok (load_config (config_file w))"
proof -
  let ?c = "load_config (config_file w)"
  let ?c' = "?c(''dont_ask_again_today'' \<mapsto> JBool True,
                ''dont_ask_again_date'' \<mapsto> JStr (str_date (date_of now)))"
  have "config_file (dont_ask_again_today w now) = config_file w
        \<or> config_file (dont_ask_again_today w now) = Stored ?c'"
    using save_config_file [of w ?c'] by (simp add: dont_ask_again_today_def Let_def)
  moreover have "history_ok (load_config (Stored ?c')) = history_ok ?c"
    by (rule history_ok_Stored_same) simp_all
  ultimately show ?thesis by auto
qed

lemma menu_settings_no_history:
  "map_of (menu_settings a) ''last_watering_date'' = None"
  "map_of (menu_settings a) ''watering_count_today'' = None"
  "map_of (menu_settings a) ''last_watering'' = None"
  by (cases a; simp)+

lemma history_ok_menu:
  "history_ok (load_config (config_file (snd (update_config w (map_of (menu_settings a))))))
     = history_ok (load_config (config_file w))"
proof -
  let ?c = "load_config (config_file w)"
  let ?c' = "?c ++ map_of (menu_settings a)"
  have "config_file (snd (update_config w (map_of (menu_settings a)))) = config_file w
        \<or> config_file (snd (update_config w (map_of (menu_settings a)))) = Stored ?c'"
    using save_config_file [of w ?c'] by (simp add: update_config_def Let_def)
  moreover have "history_ok (load_config (Stored ?c')) = history_ok ?c"
    by (rule history_ok_Stored_same) (simp_all add: map_add_def menu_settings_no_history)
  ultimately show ?thesis by auto
qed

lemma py_add_1_int: "py_add_1 v = Inr v' \<Longrightarrow> \<exists>n. v' = JInt n"
  by (cases v) auto

lemma water_plant_file:
  "config_file (snd (water_plant w resp duration_seconds now)) = config_file w
   \<or> (\<exists>c' n. config_file (snd (water_plant w resp duration_seconds now)) = Stored c'
         \<and> c' ''last_watering_date'' = Some (JStr (str_date (date_of now)))
         \<and> c' ''last_watering'' = Some (JStr (isoformat now))
         \<and> c' ''watering_count_today'' = Some (JInt n))"
proof (cases "connected w \<and> fst (nodemcu_water_plant w resp)")
  case False
  then show ?thesis
    by (auto simp: water_plant_def split: prod.splits)
next
  case True
  let ?c = "load_config (config_file w)"
  obtain v where v: "?c ''last_watering_date'' = Some v"
    using load_config_has_history(3) [of "config_file w"] by blast
  let ?c1 = "(if v \<noteq> JStr (str_date (date_of now)) then ?c(''watering_count_today'' \<mapsto> JInt 0)
              else ?c)(''last_watering'' \<mapsto> JStr (isoformat now),
                       ''last_watering_date'' \<mapsto> JStr (str_date (date_of now)))"
  have "\<exists>u. ?c1 ''watering_count_today'' = Some u"
    using load_config_has_history(2) [of "config_file w"]
    by (cases "v = JStr (str_date (date_of now))") auto
  then obtain u where u: "?c1 ''watering_count_today'' = Some u" by blast
  show ?thesis
  proof (cases "py_add_1 u")
    case (Inl e)
    with True v u show ?thesis
      by (auto simp: water_plant_def py_item_def Let_def split: prod.splits)
  next
    case (Inr u')
    then obtain n where n: "u' = JInt n" using py_add_1_int by blast
    let ?c2 = "?c1(''watering_count_today'' \<mapsto> JInt n)"
    have w: "snd (water_plant w resp duration_seconds now) = fst (save_config w ?c2)"
      using True v u Inr n
      by (auto simp: water_plant_def py_item_def Let_def split: prod.splits)
    from save_config_file [of w ?c2] show ?thesis
      unfolding w by auto
  qed
qed

lemma history_ok_water_plant:
  assumes "valid_datetime now" and "history_ok (load_config (config_file w))"
  shows "history_ok (load_config (config_file (snd (water_plant w resp duration_seconds now))))"
proof -
  from assms(1) have d: "parse_date (str_date (date_of now)) \<noteq> None"
    by (simp add: valid_datetime_def parse_date_str_date)
  from assms(1) have t: "fromisoformat_str (isoformat now) \<noteq> None"
    by (simp add: fromisoformat_str_isoformat)
  from water_plant_file [of w resp duration_seconds now] show ?thesis
  proof
    assume "config_file (snd (water_plant w resp duration_seconds now)) = config_file w"
    with assms(2) show ?thesis by simp
  next
    assume "\<exists>c' n. config_file (snd (water_plant w resp duration_seconds now)) = Stored c'
         \<and> c' ''last_watering_date'' = Some (JStr (str_date (date_of now)))
         \<and> c' ''last_watering'' = Some (JStr (isoformat now))
         \<and> c' ''watering_count_today'' = Some (JInt n)"
    then obtain c' n where "config_file (snd (water_plant w resp duration_seconds now)) = Stored c'"
      "c' ''last_watering_date'' = Some (JStr (str_date (date_of now)))"
      "c' ''last_watering'' = Some (JStr (isoformat now))"
      "c' ''watering_count_today'' = Some (JInt n)"
      by blast
    with d t show ?thesis
      by (simp add: history_ok_def load_config_Stored)
  qed
qed

lemma reachable_history_ok: "reachable f \<Longrightarrow> history_ok (load_config f)"
proof (induction rule: reachable.induct)
  case start_absent
  show ?case by (rule history_ok_start)
next
  case start_unreadable
  show ?case by (rule history_ok_start)
next
  case (by_water_plant w now resp duration_seconds)
  then show ?case by (simp add: history_ok_water_plant)
next
  case (by_check w now resp)
  then show ?case by (simp add: history_ok_check)
next
  case (by_dont_ask w now)
  then show ?case by (simp add: history_ok_dont_ask)
next
  case (by_menu w a)
  then show ?case by (simp add: history_ok_menu)
qed

lemma parse_date_fromisoformat:
  "parse_date s = Some d \<Longrightarrow> \<exists>dt. fromisoformat (JStr s) = Inr dt"
  by (cases "length s = 10")
     (auto simp: fromisoformat_def fromisoformat_str_def parse_date_def split: prod.splits)

lemma history_ok_frequency:
  assumes "history_ok c"
  shows "\<exists>r. frequency_check c now = Inr r"
proof -
  from assms obtain n where n: "c ''watering_count_today'' = Some (JInt n)"
    by (auto simp: history_ok_def split: option.splits jval.splits)
  from assms consider (none) "c ''last_watering_date'' = Some JNull"
    | (date) s t d dt where "c ''last_watering_date'' = Some (JStr s)" "parse_date s = Some d"
        "c ''last_watering'' = Some (JStr t)" "fromisoformat_str t = Some dt"
    by (auto simp: history_ok_def split: option.splits jval.splits)
  then show ?thesis
  proof cases
    case none
    then show ?thesis by (simp add: frequency_check_def py_item_def)
  next
    case date
    from parse_date_fromisoformat [OF date(2)] obtain ld
      where ld: "fromisoformat (JStr s) = Inr ld" by blast
    have lt: "fromisoformat (JStr t) = Inr dt" by (simp add: fromisoformat_def date(4))
    show ?thesis
      by (cases "1 \<le> n") (auto simp: frequency_check_def py_item_def date(1,3) ld lt n Let_def)
  qed
qed

lemma fresh_world_simps:
  "connected fresh_world" "writable fresh_world" "config_file fresh_world = Absent"
  by (simp_all add: fresh_world_def)

lemma same_day_later: "date_of example_later = date_of example_now"
  by (simp add: date_of_def example_later_def example_now_def)

section \<open>Moisture classification: the seven bands\<close>

text \<open>
  C2. For every integer raw value \<open>r\<close>, \<^verbatim>\<open>get_moisture_status\<close> returns exactly one of
  the seven bands: VERY DRY from 530 up, DRY on 430..529, NORMAL on 350..429, IDEAL on 320..349,
  MOIST on 310..319, OVERWATERED on 305..309 and TOO WET below 305. Each band is returned on
  its interval and nowhere else, so the bands cover the integers without gap or overlap, and
  each of the boundaries 305, 310, 320, 350, 430, 530 belongs to the band that starts there
  while its predecessor belongs to the next wetter band.
\<close>

theorem get_moisture_status_bands:
  "(fst (get_moisture_status r) = VERY_DRY \<longleftrightarrow> 530 \<le> r)
   \<and> (fst (get_moisture_status r) = DRY \<longleftrightarrow> 430 \<le> r \<and> r < 530)
   \<and> (fst (get_moisture_status r) = NORMAL \<longleftrightarrow> 350 \<le> r \<and> r < 430)
   \<and> (fst (get_moisture_status r) = IDEAL \<longleftrightarrow> 320 \<le> r \<and> r < 350)
   \<and> (fst (get_moisture_status r) = MOIST \<longleftrightarrow> 310 \<le> r \<and> r < 320)
   \<and> (fst (get_moisture_status r) = OVERWATERED \<longleftrightarrow> 305 \<le> r \<and> r < 310)
   \<and> (fst (get_moisture_status r) = TOO_WET_LABEL \<longleftrightarrow> r < 305)
   \<and> get_moisture_status 530 = (VERY_DRY, URGENT_WATERING)
   \<and> get_moisture_status 529 = (DRY, WATERING_RECOMMENDED)
   \<and> get_moisture_status 430 = (DRY, WATERING_RECOMMENDED)
   \<and> get_moisture_status 429 = (NORMAL, MOISTURE_ADEQUATE)
   \<and> get_moisture_status 350 = (NORMAL, MOISTURE_ADEQUATE)
   \<and> get_moisture_status 349 = (IDEAL, OPTIMAL_MOISTURE)
   \<and> get_moisture_status 320 = (IDEAL, OPTIMAL_MOISTURE)
   \<and> get_moisture_status 319 = (MOIST, NO_WATERING_NEEDED)
   \<and> get_moisture_status 310 = (MOIST, NO_WATERING_NEEDED)
   \<and> get_moisture_status 309 = (OVERWATERED, DANGEROUS_FOR_PLANT)
   \<and> get_moisture_status 305 = (OVERWATERED, DANGEROUS_FOR_PLANT)
   \<and> get_moisture_status 304 = (TOO_WET_LABEL, ROOT_ROT_RISK)"
  by (simp add: get_moisture_status_def)

section \<open>The bypass\<close>

text \<open>
  C5. With the controller connected, when the stored flag "do not ask again today" is set and
  its stored date is today's, \<^verbatim>\<open>check_watering_restrictions\<close> returns allowed with
  severity ok at once, whatever the device would answer and whatever the watering history is;
  it reads no sensor and changes nothing.
\<close>

theorem skip_checks_bypass:
  assumes "connected w"
    and "bypass_active (load_config (config_file w)) now"
  shows "check_watering_restrictions w resp now
           = (Inr \<lparr>allowed = True, message = [CAN_WATER], severity = OK\<rparr>, w)"
  using assms
  by (simp add: check_watering_restrictions_def reset_dont_ask_def bypass_active_def)

theorem skip_checks_bypass_witness:
  "connected (example_world bypass_set_today)
   \<and> bypass_active (load_config (config_file (example_world bypass_set_today))) example_now
   \<and> fst (get_sensor_data (example_world bypass_set_today) (example_reading 300))
       = Some (example_sensor_data 300)
   \<and> moisture_raw (example_sensor_data 300) = 300
   \<and> check_watering_restrictions (example_world bypass_set_today) (example_reading 300) example_now
       = (Inr \<lparr>allowed = True, message = [CAN_WATER], severity = OK\<rparr>,
          example_world bypass_set_today)"
proof -
  have c: "connected (example_world bypass_set_today)"
    by (simp add: example_world_def)
  have b: "bypass_active (load_config (config_file (example_world bypass_set_today))) example_now"
    by (simp add: bypass_active_def str_date_example example_world_def bypass_set_today_def
          load_config_Stored py_get_def)
  have s: "fst (get_sensor_data (example_world bypass_set_today) (example_reading 300))
       = Some (example_sensor_data 300)"
    by (rule example_reading_sensor)
  have m: "moisture_raw (example_sensor_data 300) = 300"
    by (simp add: example_sensor_data_def)
  show ?thesis
    using c b s m skip_checks_bypass [OF c b, of "example_reading 300"] by simp
qed

section \<open>A failed watering\<close>

text \<open>
  C8. When the controller is not connected, or the device answers the watering request with
  anything but status 200, \<^verbatim>\<open>water_plant\<close> returns failure and leaves the state as it
  was: the watering history keeps its values and nothing is saved. The state changes only
  when the call returns success.
\<close>

theorem failed_watering_leaves_history:
  "(\<not> connected w \<or> (\<forall>body. resp \<noteq> HttpResponse 200 body)
      \<longrightarrow> (\<exists>m. water_plant w resp duration_seconds now = (Inr (False, m), w)))
   \<and> (snd (water_plant w resp duration_seconds now) \<noteq> w
      \<longrightarrow> (\<exists>m. fst (water_plant w resp duration_seconds now) = Inr (True, m)))"
  by (auto simp: water_plant_def nodemcu_water_plant_def Let_def
           split: response.splits option.splits sum.splits if_splits)

theorem failed_watering_leaves_history_witness:
  "(\<forall>body. HttpResponse 500 None \<noteq> HttpResponse 200 body)
   \<and> (\<exists>m. water_plant (example_world bypass_set_today) (HttpResponse 500 None) 3 example_now
          = (Inr (False, m), example_world bypass_set_today))
   \<and> snd (water_plant (example_world []) (HttpResponse 200 None) 3 example_now)
       \<noteq> example_world []
   \<and> (\<exists>m. fst (water_plant (example_world []) (HttpResponse 200 None) 3 example_now)
          = Inr (True, m))"
proof -
  have h: "\<forall>body. HttpResponse 500 None \<noteq> HttpResponse 200 body" by simp
  have w: "water_plant (example_world []) (HttpResponse 200 None) 3 example_now
             = (Inr (True, WATERING_DONE),
                (example_world [])\<lparr>config_file := Stored
                   ((load_config (config_file (example_world [])))
                      (''watering_count_today'' \<mapsto> JInt 0,
                       ''last_watering'' \<mapsto> JStr (isoformat example_now),
                       ''last_watering_date'' \<mapsto> JStr (str_date (date_of example_now)),
                       ''watering_count_today'' \<mapsto> JInt 1))\<rparr>)"
    by (simp add: water_plant_def nodemcu_water_plant_def example_world_def save_config_def
          py_item_def load_config_Stored DEFAULT_CONFIG_history Let_def)
  have d: "snd (water_plant (example_world []) (HttpResponse 200 None) 3 example_now)
       \<noteq> example_world []"
    unfolding w by (simp add: example_world_def)
  note t = failed_watering_leaves_history
  from t [of "example_world bypass_set_today" "HttpResponse 500 None" 3 example_now] h
  have 1: "\<exists>m. water_plant (example_world bypass_set_today) (HttpResponse 500 None) 3 example_now
          = (Inr (False, m), example_world bypass_set_today)"
    by blast
  from t [of "example_world []" "HttpResponse 200 None" 3 example_now] d
  have 2: "\<exists>m. fst (water_plant (example_world []) (HttpResponse 200 None) 3 example_now)
          = Inr (True, m)"
    by blast
  from h 1 d 2 show ?thesis by blast
qed

section \<open>The frequency check\<close>

text \<open>
  C3. Take an evaluation with the controller connected, a sensor reading with raw moisture
  of at least 310, and the bypass not in effect. If the stored date of the last watering is
  today's, the counter is at least 1 and the stored time of the last watering is the timestamp
  \<open>prev\<close>, the verdict is allowed, with severity danger when fewer than 6 hours lie between
  \<open>prev\<close> and \<open>now\<close>, warning from 6 to under 12 hours, and info from 12 hours on. If there
  is no watering earlier on the same day (no date stored, a date other than today's, or a
  counter below 1), no frequency warning is produced: the verdict is allowed with severity ok.
\<close>

theorem frequency_check_severity:
  assumes conn: "connected w"
    and sensor: "fst (get_sensor_data w resp) = Some sd"
    and dry: "310 \<le> moisture_raw sd"
    and nobypass: "\<not> bypass_active (load_config (config_file w)) now"
    and now: "valid_datetime now"
  shows
    "(load_config (config_file w) ''last_watering_date'' = Some (JStr (str_date (date_of now)))
        \<and> load_config (config_file w) ''watering_count_today'' = Some (JInt n) \<and> 1 \<le> n
        \<and> load_config (config_file w) ''last_watering'' = Some (JStr (isoformat prev))
        \<and> valid_datetime prev
      \<longrightarrow> (\<exists>v. fst (check_watering_restrictions w resp now) = Inr v \<and> allowed v
             \<and> severity v =
                 (if to_micros now - to_micros prev < 6 * 3600000000 then DANGER
                  else if to_micros now - to_micros prev < 12 * 3600000000 then WARNING
                  else INFO)))
     \<and> (load_config (config_file w) ''last_watering_date'' = Some JNull
          \<or> (valid_date d \<and> d \<noteq> date_of now
              \<and> load_config (config_file w) ''last_watering_date'' = Some (JStr (str_date d)))
          \<or> (load_config (config_file w) ''last_watering_date''
                = Some (JStr (str_date (date_of now)))
              \<and> load_config (config_file w) ''watering_count_today'' = Some (JInt k) \<and> k < 1)
      \<longrightarrow> fst (check_watering_restrictions w resp now)
            = Inr \<lparr>allowed = True, message = [CAN_WATER], severity = OK\<rparr>)"
proof (intro conjI impI)
  let ?c = "load_config (config_file w)"
  assume a: "?c ''last_watering_date'' = Some (JStr (str_date (date_of now)))
        \<and> ?c ''watering_count_today'' = Some (JInt n) \<and> 1 \<le> n
        \<and> ?c ''last_watering'' = Some (JStr (isoformat prev))
        \<and> valid_datetime prev"
  then have f: "frequency_check ?c now =
           (let us = to_micros now - to_micros prev in
            if us < 6 * 3600000000 then Inr (Some [TOO_FREQUENT], DANGER)
            else if us < 12 * 3600000000 then
              Inr (Some [ALREADY_TODAY (JInt n) (us div 3600000000)], WARNING)
            else Inr (Some [INFO_TODAY (us div 3600000000)], INFO))"
    using now by (intro frequency_check_same_day) simp_all
  show "\<exists>v. fst (check_watering_restrictions w resp now) = Inr v \<and> allowed v
             \<and> severity v =
                 (if to_micros now - to_micros prev < 6 * 3600000000 then DANGER
                  else if to_micros now - to_micros prev < 12 * 3600000000 then WARNING
                  else INFO)"
    by (simp add: check_connected [OF conn] nobypass f sensor moisture_check_dry [OF dry] Let_def)
next
  let ?c = "load_config (config_file w)"
  assume "?c ''last_watering_date'' = Some JNull
          \<or> (valid_date d \<and> d \<noteq> date_of now
              \<and> ?c ''last_watering_date'' = Some (JStr (str_date d)))
          \<or> (?c ''last_watering_date'' = Some (JStr (str_date (date_of now)))
              \<and> ?c ''watering_count_today'' = Some (JInt k) \<and> k < 1)"
  with now have "frequency_check ?c now = Inr (None, OK)"
    by (intro frequency_check_no_same_day [where d = d and n = k]) blast
  then show "fst (check_watering_restrictions w resp now)
            = Inr \<lparr>allowed = True, message = [CAN_WATER], severity = OK\<rparr>"
    by (simp add: check_connected [OF conn] nobypass sensor moisture_check_dry [OF dry])
qed

theorem frequency_check_severity_witness:
  "(\<exists>v. fst (check_watering_restrictions (example_world watered_3h_ago) (example_reading 400)
             example_now) = Inr v
        \<and> allowed v \<and> severity v = DANGER)
   \<and> fst (check_watering_restrictions (example_world []) (example_reading 450) example_now)
       = Inr \<lparr>allowed = True, message = [CAN_WATER], severity = OK\<rparr>"
proof -
  have dry: "310 \<le> moisture_raw (example_sensor_data 400)"
    "310 \<le> moisture_raw (example_sensor_data 450)"
    by (simp_all add: example_sensor_data_def)
  have lt: "to_micros example_now - to_micros example_last < 6 * 3600000000"
    by (simp add: micros_example micros_example_last)
  note a = frequency_check_severity [OF example_world_simps(1) example_reading_sensor(2) dry(1)
      watered_3h_ago_config(4) valid_example, of 1 example_last]
  note b = frequency_check_severity [OF example_world_simps(1) example_reading_sensor(3) dry(2)
      empty_config(2) valid_example]
  from a watered_3h_ago_config valid_example_last lt
  have 1: "\<exists>v. fst (check_watering_restrictions (example_world watered_3h_ago)
             (example_reading 400) example_now) = Inr v
        \<and> allowed v \<and> severity v = DANGER"
    by simp
  from b empty_config
  have 2: "fst (check_watering_restrictions (example_world []) (example_reading 450) example_now)
       = Inr \<lparr>allowed = True, message = [CAN_WATER], severity = OK\<rparr>"
    by simp
  from 1 2 show ?thesis by simp
qed

section \<open>The soil moisture check\<close>

text \<open>
  C4. Take an evaluation with the controller connected, a sensor reading, and the bypass not
  in effect, in which the frequency check gave the message \<open>wm\<close> and the level \<open>wl\<close>. The
  verdict is allowed and its severity is never below \<open>wl\<close>. With raw moisture under 310 the
  severity is danger and the message is the frequency message, if there is one, followed by
  the notice that the soil is too wet; with raw moisture of 310 or more the frequency result
  is returned unchanged.
\<close>

theorem moisture_check_raises:
  assumes conn: "connected w"
    and sensor: "fst (get_sensor_data w resp) = Some sd"
    and nobypass: "\<not> bypass_active (load_config (config_file w)) now"
    and freq: "frequency_check (load_config (config_file w)) now = Inr (wm, wl)"
  shows "\<exists>v. fst (check_watering_restrictions w resp now) = Inr v \<and> allowed v
           \<and> level_rank wl \<le> level_rank (severity v)
           \<and> (moisture_raw sd < 310 \<longrightarrow>
                severity v = DANGER
                \<and> TOO_WET (moisture_raw sd) \<in> set (message v)
                \<and> message v
                    = (case wm of Some m \<Rightarrow> m | None \<Rightarrow> []) @ [TOO_WET (moisture_raw sd)])
           \<and> (310 \<le> moisture_raw sd \<longrightarrow>
                severity v = wl
                \<and> message v = (case wm of Some m \<Rightarrow> m | None \<Rightarrow> [CAN_WATER]))"
proof (cases "moisture_raw sd < 310")
  case True
  have "level_rank wl \<le> 3" by (cases wl) simp_all
  with True show ?thesis
    by (simp add: check_connected [OF conn] nobypass freq sensor moisture_check_wet)
next
  case False
  then have dry: "310 \<le> moisture_raw sd" by simp
  have "wm = None \<Longrightarrow> wl = OK" using freq frequency_check_None_OK by blast
  with False show ?thesis
    by (cases wm) (simp_all add: check_connected [OF conn] nobypass freq sensor
          moisture_check_dry [OF dry])
qed

theorem moisture_check_raises_witness:
  "(\<exists>v. fst (check_watering_restrictions (example_world watered_3h_ago) (example_reading 300)
             example_now) = Inr v
        \<and> allowed v \<and> severity v = DANGER \<and> message v = [TOO_FREQUENT, TOO_WET 300])
   \<and> (\<exists>v. fst (check_watering_restrictions (example_world watered_3h_ago) (example_reading 400)
             example_now) = Inr v
        \<and> allowed v \<and> severity v = DANGER \<and> message v = [TOO_FREQUENT])"
proof -
  note a = moisture_check_raises [OF example_world_simps(1) example_reading_sensor(1)
      watered_3h_ago_config(4) frequency_3h_ago]
  note b = moisture_check_raises [OF example_world_simps(1) example_reading_sensor(2)
      watered_3h_ago_config(4) frequency_3h_ago]
  from a have 1: "\<exists>v. fst (check_watering_restrictions (example_world watered_3h_ago)
             (example_reading 300) example_now) = Inr v
        \<and> allowed v \<and> severity v = DANGER \<and> message v = [TOO_FREQUENT, TOO_WET 300]"
    by (auto simp: example_sensor_data_def)
  from b have 2: "\<exists>v. fst (check_watering_restrictions (example_world watered_3h_ago)
             (example_reading 400) example_now) = Inr v
        \<and> allowed v \<and> severity v = DANGER \<and> message v = [TOO_FREQUENT]"
    by (auto simp: example_sensor_data_def)
  from 1 2 show ?thesis by simp
qed

section \<open>No sensor data\<close>

text \<open>
  C1, as the specification states it: whenever no sensor reading can be obtained, the verdict
  is not allowed, whatever the settings hold and in particular whatever the bypass flag is.
  This fails: with the controller marked connected, the flag set for today and a device that
  does not answer, the function returns allowed with severity ok, since the bypass returns
  before the sensor is read.
\<close>

theorem no_sensor_data_counterexample:
  "connected (example_world bypass_set_today)
   \<and> fst (get_sensor_data (example_world bypass_set_today) NoResponse) = None
   \<and> fst (check_watering_restrictions (example_world bypass_set_today) NoResponse example_now)
       = Inr \<lparr>allowed = True, message = [CAN_WATER], severity = OK\<rparr>"
proof -
  have b: "bypass_active (load_config (config_file (example_world bypass_set_today))) example_now"
    by (simp add: bypass_active_def str_date_example example_world_def bypass_set_today_def
          load_config_Stored py_get_def)
  show ?thesis
    using b by (simp add: example_world_simps(1) example_no_response check_connected)
qed

text \<open>
  C1, amended. When the controller is not connected, the verdict is not allowed with severity
  danger for every settings file, and the state is left as it was. When the controller is
  connected but the sensor gives no reading, the verdict is not allowed with severity danger
  provided the bypass is not in effect and the frequency check raises no error. Every verdict
  that is not allowed comes from one of these two cases and has severity danger, so every
  verdict produced with a sensor reading is allowed.
\<close>

theorem no_sensor_data_verdict:
  "(\<not> connected w \<longrightarrow>
      check_watering_restrictions w resp now
        = (Inr \<lparr>allowed = False, message = [NO_LINK], severity = DANGER\<rparr>, w))
   \<and> (connected w \<and> fst (get_sensor_data w resp) = None
       \<and> \<not> bypass_active (load_config (config_file w)) now
       \<and> frequency_check (load_config (config_file w)) now = Inr r
      \<longrightarrow> fst (check_watering_restrictions w resp now)
            = Inr \<lparr>allowed = False, message = [NO_MOISTURE_DATA], severity = DANGER\<rparr>)
   \<and> (fst (check_watering_restrictions w resp now) = Inr v \<and> \<not> allowed v
      \<longrightarrow> fst (get_sensor_data w resp) = None
          \<and> (connected w \<longrightarrow> \<not> bypass_active (load_config (config_file w)) now)
          \<and> severity v = DANGER)"
proof (intro conjI impI)
  assume "\<not> connected w"
  then show "check_watering_restrictions w resp now
        = (Inr \<lparr>allowed = False, message = [NO_LINK], severity = DANGER\<rparr>, w)"
    by (simp add: check_watering_restrictions_def)
next
  assume a: "connected w \<and> fst (get_sensor_data w resp) = None
       \<and> \<not> bypass_active (load_config (config_file w)) now
       \<and> frequency_check (load_config (config_file w)) now = Inr r"
  then have c: "connected w" by simp
  from a show "fst (check_watering_restrictions w resp now)
            = Inr \<lparr>allowed = False, message = [NO_MOISTURE_DATA], severity = DANGER\<rparr>"
    by (cases r) (simp add: check_connected [OF c])
next
  assume a: "fst (check_watering_restrictions w resp now) = Inr v \<and> \<not> allowed v"
  show "fst (get_sensor_data w resp) = None"
  proof (cases "connected w")
    case False
    then show ?thesis by (simp add: get_sensor_data_disconnected)
  next
    case True
    from a show ?thesis
      by (auto simp: check_connected [OF True] moisture_check_def Let_def
               split: if_splits sum.splits option.splits prod.splits)
  qed
next
  assume a: "fst (check_watering_restrictions w resp now) = Inr v \<and> \<not> allowed v"
  assume c: "connected w"
  from a show "\<not> bypass_active (load_config (config_file w)) now"
    by (auto simp: check_connected [OF c] split: if_splits)
next
  assume a: "fst (check_watering_restrictions w resp now) = Inr v \<and> \<not> allowed v"
  show "severity v = DANGER"
  proof (cases "connected w")
    case False
    with a show ?thesis by (auto simp: check_watering_restrictions_def)
  next
    case True
    from a show ?thesis
      by (auto simp: check_connected [OF True] moisture_check_def Let_def
               split: if_splits sum.splits option.splits prod.splits)
  qed
qed

theorem no_sensor_data_verdict_witness:
  "check_watering_restrictions ((example_world [])\<lparr>connected := False\<rparr>) (example_reading 400)
       example_now
     = (Inr \<lparr>allowed = False, message = [NO_LINK], severity = DANGER\<rparr>,
        (example_world [])\<lparr>connected := False\<rparr>)
   \<and> fst (check_watering_restrictions (example_world watered_3h_ago) NoResponse example_now)
       = Inr \<lparr>allowed = False, message = [NO_MOISTURE_DATA], severity = DANGER\<rparr>
   \<and> fst (get_sensor_data (example_world watered_3h_ago) NoResponse) = None"
proof -
  let ?v = "\<lparr>allowed = False, message = [NO_MOISTURE_DATA], severity = DANGER\<rparr>"
  have d: "\<not> connected ((example_world [])\<lparr>connected := False\<rparr>)" by simp
  from no_sensor_data_verdict [of "(example_world [])\<lparr>connected := False\<rparr>"
      "example_reading 400" example_now] d
  have 1: "check_watering_restrictions ((example_world [])\<lparr>connected := False\<rparr>)
       (example_reading 400) example_now
     = (Inr \<lparr>allowed = False, message = [NO_LINK], severity = DANGER\<rparr>,
        (example_world [])\<lparr>connected := False\<rparr>)"
    by blast
  note t = no_sensor_data_verdict [of "example_world watered_3h_ago" NoResponse example_now
      "(Some [TOO_FREQUENT], DANGER)" ?v]
  from t example_world_simps(1) example_no_response watered_3h_ago_config(4) frequency_3h_ago
  have 2: "fst (check_watering_restrictions (example_world watered_3h_ago) NoResponse example_now)
       = Inr ?v"
    by blast
  have na: "\<not> allowed ?v" by simp
  from t 2 na have 3: "fst (get_sensor_data (example_world watered_3h_ago) NoResponse) = None"
    by blast
  from 1 2 3 show ?thesis by blast
qed

section \<open>The daily reset\<close>

text \<open>
  C6, as the specification states it: every settings record consulted at read time has the
  counter at 0 when the stored date of the last watering is not today's. This fails: with a
  watering recorded yesterday and a counter of 3, \<^verbatim>\<open>load_config\<close> returns the counter 3,
  and the record \<^verbatim>\<open>check_watering_restrictions\<close> saves still holds 3.
\<close>

theorem daily_reset_counterexample:
  "load_config (config_file (example_world watered_yesterday)) ''last_watering_date''
     = Some (JStr ''2024-04-30'')
   \<and> str_date (date_of example_now) = ''2024-05-01''
   \<and> load_config (config_file (example_world watered_yesterday)) ''watering_count_today''
       = Some (JInt 3)
   \<and> load_config (config_file (snd (check_watering_restrictions (example_world watered_yesterday)
         (example_reading 400) example_now))) ''watering_count_today''
       = Some (JInt 3)"
proof -
  let ?w = "example_world watered_yesterday"
  have a: "load_config (config_file ?w) ''last_watering_date'' = Some (JStr ''2024-04-30'')"
    and b: "load_config (config_file ?w) ''watering_count_today'' = Some (JInt 3)"
    and c: "py_get (load_config (config_file ?w)) ''dont_ask_again_date''
              \<noteq> JStr (str_date (date_of example_now))"
    by (simp_all add: example_world_simps load_config_Stored watered_yesterday_def py_get_def
          DEFAULT_CONFIG_history)
  have f: "config_file (snd (check_watering_restrictions ?w (example_reading 400) example_now))
             = Stored ((load_config (config_file ?w))
                 (''dont_ask_again_today'' \<mapsto> JBool False,
                  ''dont_ask_again_date'' \<mapsto> JStr (str_date (date_of example_now))))"
    unfolding check_connected_file [OF example_world_simps(1)]
    by (rule reset_dont_ask_saved [OF example_world_simps(2) c])
  have d: "load_config (config_file (snd (check_watering_restrictions ?w (example_reading 400)
             example_now))) ''watering_count_today'' = Some (JInt 3)"
    unfolding f by (simp add: load_config_Stored b)
  from a b d str_date_example show ?thesis by simp
qed

text \<open>
  C6, amended. \<^verbatim>\<open>load_config\<close> resets nothing: every stored value is returned as it is.
  With the controller connected and the file writable, whenever the stored date of the flag
  "do not ask again today" is not today's, \<^verbatim>\<open>check_watering_restrictions\<close> sets the flag
  to false and its date to today, saves that record, and the bypass is not in effect. The
  counter is not reset at read time; instead, when the stored date of the last watering is
  missing or is not today's, the frequency check gives no warning whatever the counter holds.
\<close>

theorem daily_reset_at_read_time:
  "(c k = Some v \<longrightarrow> load_config (Stored c) k = Some v)
   \<and> (connected w \<and> writable w
       \<and> py_get (load_config (config_file w)) ''dont_ask_again_date''
            \<noteq> JStr (str_date (date_of now))
      \<longrightarrow> config_file (snd (check_watering_restrictions w resp now))
            = Stored ((load_config (config_file w))
                (''dont_ask_again_today'' \<mapsto> JBool False,
                 ''dont_ask_again_date'' \<mapsto> JStr (str_date (date_of now))))
          \<and> \<not> bypass_active (load_config (config_file w)) now)
   \<and> (load_config (config_file w) ''last_watering_date'' = Some JNull
       \<or> (valid_date d \<and> d \<noteq> date_of now
           \<and> load_config (config_file w) ''last_watering_date'' = Some (JStr (str_date d)))
      \<longrightarrow> frequency_check ((load_config (config_file w))(''watering_count_today'' \<mapsto> x)) now
            = Inr (None, OK))"
proof (intro conjI impI)
  assume "c k = Some v"
  then show "load_config (Stored c) k = Some v" by (simp add: load_config_Stored)
next
  assume a: "connected w \<and> writable w
       \<and> py_get (load_config (config_file w)) ''dont_ask_again_date''
            \<noteq> JStr (str_date (date_of now))"
  then have c: "connected w" by simp
  from a show "config_file (snd (check_watering_restrictions w resp now))
            = Stored ((load_config (config_file w))
                (''dont_ask_again_today'' \<mapsto> JBool False,
                 ''dont_ask_again_date'' \<mapsto> JStr (str_date (date_of now))))"
    unfolding check_connected_file [OF c] by (intro reset_dont_ask_saved) simp_all
next
  assume "connected w \<and> writable w
       \<and> py_get (load_config (config_file w)) ''dont_ask_again_date''
            \<noteq> JStr (str_date (date_of now))"
  then show "\<not> bypass_active (load_config (config_file w)) now"
    by (simp add: bypass_active_def)
next
  let ?c = "load_config (config_file w)"
  assume "?c ''last_watering_date'' = Some JNull
       \<or> (valid_date d \<and> d \<noteq> date_of now
           \<and> ?c ''last_watering_date'' = Some (JStr (str_date d)))"
  then have "(?c(''watering_count_today'' \<mapsto> x)) ''last_watering_date'' = Some JNull
       \<or> (valid_date d \<and> d \<noteq> date_of now
           \<and> (?c(''watering_count_today'' \<mapsto> x)) ''last_watering_date''
               = Some (JStr (str_date d)))"
    by simp
  then show "frequency_check (?c(''watering_count_today'' \<mapsto> x)) now = Inr (None, OK)"
    by (intro frequency_check_no_same_day [where d = d and n = 0]) blast
qed

theorem daily_reset_at_read_time_witness:
  "load_config (Stored (map_of watered_yesterday)) ''watering_count_today'' = Some (JInt 3)
   \<and> config_file (snd (check_watering_restrictions (example_world watered_yesterday)
         (example_reading 400) example_now))
       = Stored ((load_config (config_file (example_world watered_yesterday)))
           (''dont_ask_again_today'' \<mapsto> JBool False,
            ''dont_ask_again_date'' \<mapsto> JStr (str_date (date_of example_now))))
   \<and> frequency_check ((load_config (config_file (example_world watered_yesterday)))
         (''watering_count_today'' \<mapsto> JInt 3)) example_now
       = Inr (None, OK)"
proof -
  let ?w = "example_world watered_yesterday"
  note t = daily_reset_at_read_time [of "map_of watered_yesterday" "''watering_count_today''"
      "JInt 3" ?w example_now "example_reading 400" "(2024, 4, 30)" "JInt 3"]
  have k: "map_of watered_yesterday ''watering_count_today'' = Some (JInt 3)"
    by (simp add: watered_yesterday_def)
  have c: "py_get (load_config (config_file ?w)) ''dont_ask_again_date''
              \<noteq> JStr (str_date (date_of example_now))"
    by (simp add: example_world_simps load_config_Stored watered_yesterday_def py_get_def
          DEFAULT_CONFIG_history)
  have d: "valid_date (2024, 4, 30)" "(2024, 4, 30) \<noteq> date_of example_now"
    "load_config (config_file ?w) ''last_watering_date'' = Some (JStr (str_date (2024, 4, 30)))"
    by (simp_all add: valid_date_def days_in_month_def date_of_def example_now_def
          str_date_yesterday example_world_simps load_config_Stored watered_yesterday_def)
  from t k have 1: "load_config (Stored (map_of watered_yesterday)) ''watering_count_today''
      = Some (JInt 3)"
    by blast
  from t example_world_simps(1,2) c
  have 2: "config_file (snd (check_watering_restrictions ?w (example_reading 400) example_now))
       = Stored ((load_config (config_file ?w))
           (''dont_ask_again_today'' \<mapsto> JBool False,
            ''dont_ask_again_date'' \<mapsto> JStr (str_date (date_of example_now))))"
    by blast
  from t d have 3: "frequency_check ((load_config (config_file ?w))
         (''watering_count_today'' \<mapsto> JInt 3)) example_now = Inr (None, OK)"
    by blast
  from 1 2 3 show ?thesis by blast
qed

section \<open>Recording a watering\<close>

text \<open>
  C7. Take a watering the device confirms (status 200) at \<open>now\<close>, with the controller
  connected and the settings file writable, and let \<open>m\<close> be the counter the watering starts
  from: the stored counter \<open>n\<close> when the stored date of the last watering is today's, and 0
  otherwise. Then \<^verbatim>\<open>water_plant\<close> returns success, the time of the last watering is
  \<open>now\<close>, its date is today's, the counter is \<open>m + 1\<close>, every other setting keeps its value,
  and the file holds exactly the record a later \<^verbatim>\<open>load_config\<close> returns. A second
  confirmed watering on the same day, at \<open>now'\<close>, gives the counter \<open>m + 2\<close> and the time
  \<open>now'\<close>: from 0 the counter goes to 1 and then to 2.
\<close>

theorem water_plant_records:
  assumes conn: "connected w" and wr: "writable w"
    and resp: "resp = HttpResponse 200 body"
    and cnt: "load_config (config_file w) ''last_watering_date''
                = Some (JStr (str_date (date_of now)))
              \<longrightarrow> load_config (config_file w) ''watering_count_today'' = Some (JInt n)"
    and m: "m = (if load_config (config_file w) ''last_watering_date''
                        = Some (JStr (str_date (date_of now))) then n else 0)"
    and w': "w' = snd (water_plant w resp duration_seconds now)"
    and w'': "w'' = snd (water_plant w' resp' duration' now')"
  shows "fst (water_plant w resp duration_seconds now) = Inr (True, WATERING_DONE)
     \<and> config_file w' = Stored (load_config (config_file w'))
     \<and> load_config (config_file w') ''last_watering'' = Some (JStr (isoformat now))
     \<and> load_config (config_file w') ''last_watering_date'' = Some (JStr (str_date (date_of now)))
     \<and> load_config (config_file w') ''watering_count_today'' = Some (JInt (m + 1))
     \<and> (\<forall>k. k \<noteq> ''last_watering'' \<and> k \<noteq> ''last_watering_date''
              \<and> k \<noteq> ''watering_count_today''
            \<longrightarrow> load_config (config_file w') k = load_config (config_file w) k)
     \<and> (resp' = HttpResponse 200 body' \<and> date_of now' = date_of now
          \<longrightarrow> fst (water_plant w' resp' duration' now') = Inr (True, WATERING_DONE)
              \<and> load_config (config_file w'') ''last_watering'' = Some (JStr (isoformat now'))
              \<and> load_config (config_file w'') ''last_watering_date''
                   = Some (JStr (str_date (date_of now)))
              \<and> load_config (config_file w'') ''watering_count_today'' = Some (JInt (m + 2)))"
proof -
  let ?c' = "\<lambda>k. if k = ''watering_count_today'' then Some (JInt (m + 1))
                    else if k = ''last_watering_date'' then Some (JStr (str_date (date_of now)))
                    else if k = ''last_watering'' then Some (JStr (isoformat now))
                    else load_config (config_file w) k"
  have step1: "water_plant w resp duration_seconds now
                 = (Inr (True, WATERING_DONE), w\<lparr>config_file := Stored ?c'\<rparr>)"
    unfolding m using water_plant_success [OF conn resp cnt, of duration_seconds] wr
    by (simp add: save_config_def)
  have w'_eq: "w' = w\<lparr>config_file := Stored ?c'\<rparr>" by (simp add: w' step1)
  have l1: "load_config (config_file w') = ?c'"
    unfolding w'_eq using load_config_recorded [of "JInt (m + 1)" _ _ "config_file w"]
    by simp
  have f1: "config_file w' = Stored (load_config (config_file w'))"
    unfolding l1 by (simp add: w'_eq)
  have second: "fst (water_plant w' resp' duration' now') = Inr (True, WATERING_DONE)
              \<and> load_config (config_file w'') ''last_watering'' = Some (JStr (isoformat now'))
              \<and> load_config (config_file w'') ''last_watering_date''
                   = Some (JStr (str_date (date_of now)))
              \<and> load_config (config_file w'') ''watering_count_today'' = Some (JInt (m + 2))"
    if rb: "resp' = HttpResponse 200 body'" and db: "date_of now' = date_of now"
  proof -
    let ?c'' = "\<lambda>k. if k = ''watering_count_today'' then Some (JInt (m + 1 + 1))
                    else if k = ''last_watering_date'' then Some (JStr (str_date (date_of now')))
                    else if k = ''last_watering'' then Some (JStr (isoformat now'))
                    else load_config (config_file w') k"
    have conn': "connected w'" and wr': "writable w'" using conn wr by (simp_all add: w'_eq)
    have cnt': "load_config (config_file w') ''last_watering_date''
                  = Some (JStr (str_date (date_of now')))
                \<longrightarrow> load_config (config_file w') ''watering_count_today''
                     = Some (JInt (m + 1))"
      by (simp add: l1)
    have same: "load_config (config_file w') ''last_watering_date''
                  = Some (JStr (str_date (date_of now')))"
      by (simp add: l1 db)
    have step2: "water_plant w' resp' duration' now'
                   = (Inr (True, WATERING_DONE), w'\<lparr>config_file := Stored ?c''\<rparr>)"
      using water_plant_success [OF conn' rb cnt', of duration'] wr' same
      by (simp add: save_config_def)
    have l2: "load_config (config_file w'') = ?c''"
      unfolding w'' step2
      using load_config_recorded [of "JInt (m + 1 + 1)" _ _ "config_file w'"] by simp
    show ?thesis
      unfolding l2 by (simp add: step2 db)
  qed
  show ?thesis
    unfolding l1 using second by (simp add: step1 l1 [symmetric] f1 [symmetric])
qed

theorem water_plant_records_witness:
  "load_config (config_file (snd (water_plant fresh_world (HttpResponse 200 None) 3 example_now)))
       ''watering_count_today'' = Some (JInt 1)
   \<and> load_config (config_file (snd (water_plant fresh_world (HttpResponse 200 None) 3
         example_now))) ''last_watering'' = Some (JStr (isoformat example_now))
   \<and> load_config (config_file (snd (water_plant
         (snd (water_plant fresh_world (HttpResponse 200 None) 3 example_now))
         (HttpResponse 200 None) 3 example_later))) ''watering_count_today'' = Some (JInt 2)
   \<and> load_config (config_file (snd (water_plant
         (snd (water_plant fresh_world (HttpResponse 200 None) 3 example_now))
         (HttpResponse 200 None) 3 example_later))) ''last_watering''
       = Some (JStr (isoformat example_later))"
proof -
  have cnt: "load_config (config_file fresh_world) ''last_watering_date''
                = Some (JStr (str_date (date_of example_now)))
              \<longrightarrow> load_config (config_file fresh_world) ''watering_count_today''
                   = Some (JInt 0)"
    by (simp add: fresh_world_simps load_config_def DEFAULT_CONFIG_history)
  have m: "(0::int) = (if load_config (config_file fresh_world) ''last_watering_date''
                        = Some (JStr (str_date (date_of example_now))) then 0 else 0)"
    by simp
  note t = water_plant_records [where w = fresh_world and resp = "HttpResponse 200 None"
      and body = None and now = example_now and n = 0 and m = 0 and duration_seconds = 3
      and resp' = "HttpResponse 200 None" and duration' = 3 and now' = example_later
      and body' = None, OF fresh_world_simps(1,2) refl cnt m refl refl]
  from t same_day_later show ?thesis by simp
qed

section \<open>Loading the settings\<close>

text \<open>
  C9. The specification asks every loader to fill the keys a stored record lacks from the
  defaults. \<^verbatim>\<open>load_config\<close> of bot.py does so; \<^verbatim>\<open>load_config\<close> of config.py returns
  the stored record as it is. On a file holding only \<^verbatim>\<open>auto_mode\<close>, the loader of
  config.py has no \<^verbatim>\<open>watering_duration\<close>, while the loader of bot.py supplies the
  default 3; both keep the stored \<^verbatim>\<open>auto_mode\<close>.
\<close>

theorem config_py_load_leaves_keys_missing:
  "config_load_config (Stored (map_of [(''auto_mode'', JBool True)])) ''watering_duration'' = None
   \<and> config_load_config (Stored (map_of [(''auto_mode'', JBool True)])) ''auto_mode''
       = Some (JBool True)
   \<and> load_config (Stored (map_of [(''auto_mode'', JBool True)])) ''watering_duration''
       = Some (JInt 3)
   \<and> load_config (Stored (map_of [(''auto_mode'', JBool True)])) ''auto_mode''
       = Some (JBool True)"
  by (simp add: config_load_config_def load_config_Stored DEFAULT_CONFIG_def DEFAULT_ITEMS_def)

section \<open>The stored history always parses\<close>

text \<open>
  C10. Every settings file the program reaches from a missing or unreadable file through its
  own writers (a recorded watering, the reset and the setting of the flag "do not ask again
  today", and the menu updates) has a well-formed watering history: the date of the last
  watering is \<^verbatim>\<open>None\<close>, or it is a date string and the time of the last watering is a
  timestamp string that \<^verbatim>\<open>fromisoformat\<close> reads, and the counter is an integer. On such
  a file the frequency check raises no error, so \<^verbatim>\<open>check_watering_restrictions\<close> always
  returns a verdict.
\<close>

theorem reachable_history_parses:
  assumes "reachable f"
  shows "history_ok (load_config f)
     \<and> (\<exists>r. frequency_check (load_config f) now = Inr r)
     \<and> (config_file w = f \<longrightarrow> (\<exists>v. fst (check_watering_restrictions w resp now) = Inr v))"
proof -
  have h: "history_ok (load_config f)" using assms by (rule reachable_history_ok)
  from history_ok_frequency [OF h] obtain r
    where r: "frequency_check (load_config f) now = Inr r" by blast
  have "\<exists>v. fst (check_watering_restrictions w resp now) = Inr v" if f: "config_file w = f"
  proof (cases "connected w")
    case False
    then show ?thesis by (simp add: check_watering_restrictions_def)
  next
    case True
    show ?thesis
      using r by (cases r) (simp add: check_connected [OF True] f split: option.splits)
  qed
  with h r show ?thesis by blast
qed

theorem reachable_history_parses_witness:
  "reachable (config_file (snd (water_plant fresh_world (HttpResponse 200 None) 3 example_now)))
   \<and> history_ok (load_config (config_file
         (snd (water_plant fresh_world (HttpResponse 200 None) 3 example_now))))
   \<and> (\<exists>v. fst (check_watering_restrictions
         (snd (water_plant fresh_world (HttpResponse 200 None) 3 example_now))
         (example_reading 400) example_later) = Inr v)"
proof -
  let ?w = "snd (water_plant fresh_world (HttpResponse 200 None) 3 example_now)"
  have "reachable (config_file fresh_world)"
    unfolding fresh_world_simps by (rule start_absent)
  then have r: "reachable (config_file ?w)"
    using valid_example by (rule by_water_plant)
  from reachable_history_parses [OF r, of example_later ?w "example_reading 400"] r
  show ?thesis by simp
qed

end
